theory Spec2Isabelle
  imports Complex_Main "HOL-Library.AList" "HOL-Library.Sublist"
begin

section \<open>Python values, dictionaries and exceptions\<close>

text \<open>
  The controller of \<^verbatim>\<open>andor_spectrometer.py\<close> keeps its configuration in Python
  dictionaries from field names to values of any type. The values that occur are
  \<^verbatim>\<open>None\<close>, booleans, integers, floats and strings. A float is \<^verbatim>\<open>nan\<close>, one of the
  two infinities, or finite: \<open>Fl r\<close> is the double whose value is the real number \<open>r\<close>
  (the sign of a zero is not kept). What a floating-point operation rounds to is the
  machine's business and a parameter of the model, see below.
\<close>

datatype pyfloat = NaN | PInf | NInf | Fl real

datatype pyval = PNone | PBool bool | PInt int | PFloat pyfloat | PStr string

text \<open>
  Exceptions are values. \<open>ValueError\<close> carries the text that could not be converted:
  the message of CPython is a fixed phrase around that text, and nothing else.
\<close>

datatype exc =
    KeyError string | ValueError string | TypeError | IndexError | ZeroDivisionError
  | OverflowError | MemoryError

type_synonym dict = "(string \<times> pyval) list"

text \<open>
  A dictionary is an association list in insertion order; \<open>AList.update\<close> replaces the
  value of a key that is present and appends a new key at the end, as \<^verbatim>\<open>d[k] = v\<close> does.
\<close>

definition dict_get :: "dict \<Rightarrow> string \<Rightarrow> pyval option" where
  "dict_get d k = map_of d k"

definition dict_getitem :: "dict \<Rightarrow> string \<Rightarrow> exc + pyval" where
  "dict_getitem d k = (case map_of d k of None \<Rightarrow> Inl (KeyError k) | Some v \<Rightarrow> Inr v)"

definition dict_setitem :: "dict \<Rightarrow> string \<Rightarrow> pyval \<Rightarrow> dict" where
  "dict_setitem d k v = AList.update k v d"

definition dict_update :: "dict \<Rightarrow> dict \<Rightarrow> dict" where
  "dict_update d other = fold (\<lambda>(k, v) acc. dict_setitem acc k v) other d"

text \<open>\<^verbatim>\<open>d.get(k, None) is None\<close>: the key is missing, or its value is \<^verbatim>\<open>None\<close>.\<close>

definition get_is_None :: "dict \<Rightarrow> string \<Rightarrow> bool" where
  "get_is_None d k = (case map_of d k of None \<Rightarrow> True | Some v \<Rightarrow> v = PNone)"


section \<open>The device adapter and the interpreter's text conversions\<close>

text \<open>
  The module \<^verbatim>\<open>qdlutils.datagenerators.spectrometers.andor\<close> is not part of the
  sources at hand. Its two objects, \<^verbatim>\<open>spectrometer_config\<close> and
  \<^verbatim>\<open>spectrometer_daq\<close>, are a parameter of the model: a device state of any type
  \<open>'d\<close> with the operations the controller calls. The attribute names are those the
  controller reads and assigns. An operation of the device returns normally and changes
  the device only: what the absent module may raise is outside the model.
\<close>

datatype attr =
    CcdDeviceIndex | SpgDeviceIndex
  | CurrentGrating | CenterWavelength
  | PixelOffset | WavelengthOffset
  | InputPort | OutputPort
  | ReadMode | AcquisitionMode | TriggerMode
  | ExposureTime | NumberOfAccumulations | AccumulationCycleTime
  | NumberOfKinetics | KineticCycleTime
  | BaselineClamp | RemoveCosmicRays | KeepCleanOnExternalTrigger
  | SingleTrackReadModeParameters
  | VerticalShiftSpeed | AdChannel | OutputAmplifier | HorizontalShiftSpeed | PreAmpGain
  | SensorTemperatureSetPoint | ReachTemperatureBeforeAcquisition
  | Cooler | CoolerPersistenceMode

text \<open>
  \<open>ReachTemperatureBeforeAcquisition\<close> is the one attribute of \<^verbatim>\<open>spectrometer_daq\<close>,
  all others belong to \<^verbatim>\<open>spectrometer_config\<close>. The single-track parameters are an
  object with two attributes, written and read as a pair.

  The conversions between text and numbers (\<^verbatim>\<open>int(s)\<close>, \<^verbatim>\<open>float(s)\<close>,
  \<^verbatim>\<open>str(x)\<close>, \<^verbatim>\<open>repr(s)\<close>) belong to the interpreter; they are parameters as well.
  A conversion from text returns \<open>None\<close> where the interpreter raises \<^verbatim>\<open>ValueError\<close>.

  So does the arithmetic of doubles, where it rounds: \<open>float_of_int\<close> is the double
  nearest to an integer (\<open>None\<close> where the interpreter raises \<^verbatim>\<open>OverflowError\<close>, the
  integer being too large), \<open>float_mul\<close> the product of two finite doubles and
  \<open>float_recip\<close> the quotient of 1 by a finite double that is not zero (either may be an
  infinity), \<open>int_recip\<close> the quotient of 1 by an integer that is not zero. The
  repetition of a string, which fails for a count the interpreter cannot serve, is
  \<open>str_repeat\<close>.
\<close>

record 'd env =
  sc_open :: "'d \<Rightarrow> 'd"
  sc_close :: "'d \<Rightarrow> 'd"
  sc_is_open :: "'d \<Rightarrow> bool"
  get_attr :: "attr \<Rightarrow> 'd \<Rightarrow> pyval"
  set_attr :: "attr \<Rightarrow> pyval \<Rightarrow> 'd \<Rightarrow> 'd"
  get_track :: "'d \<Rightarrow> pyval \<times> pyval"
  set_track :: "pyval \<Rightarrow> pyval \<Rightarrow> 'd \<Rightarrow> 'd"
  daq_close :: "'d \<Rightarrow> 'd"
  stop_waiting_to_reach_temperature :: "'d \<Rightarrow> 'd"
  int_of_str :: "string \<Rightarrow> int option"
  float_of_str :: "string \<Rightarrow> pyfloat option"
  str_of_int :: "int \<Rightarrow> string"
  str_of_float :: "pyfloat \<Rightarrow> string"
  repr_of_str :: "string \<Rightarrow> string"
  float_of_int :: "int \<Rightarrow> pyfloat option"
  float_mul :: "real \<Rightarrow> real \<Rightarrow> pyfloat"
  float_recip :: "real \<Rightarrow> pyfloat"
  int_recip :: "int \<Rightarrow> pyfloat"
  str_repeat :: "string \<Rightarrow> int \<Rightarrow> exc + string"


section \<open>The controller state\<close>

text \<open>
  Dictionaries are objects with an identity: \<open>heap\<close> lists them, a reference is an
  index. \<open>last_config_dict\<close> is the reference the controller holds. \<open>logger\<close> lists
  the logging calls with their level; the threshold of the logger, which
  \<^verbatim>\<open>configure\<close> sets, is not modelled. \<open>calls\<close> is a ghost field: the operations
  invoked on the device, in order (reading \<^verbatim>\<open>is_open\<close> is not recorded). A reference
  beyond the heap does not occur in a running program; \<open>deref\<close> reads it as the empty
  dictionary.
\<close>

datatype level = DEBUG | INFO | ERROR

datatype call =
    Open | Close | DaqClose | StopWaiting
  | Set attr pyval | SetTrack pyval pyval
  | Get attr | GetTrack

type_synonym ref = nat

record 'd controller =
  device :: 'd
  heap :: "dict list"
  last_config_dict :: ref
  logger :: "(level \<times> string) list"
  calls :: "call list"

definition deref :: "dict list \<Rightarrow> ref \<Rightarrow> dict" where
  "deref h r = (if r < length h then h ! r else [])"

definition store :: "'d controller \<Rightarrow> dict" where
  "store s = deref (heap s) (last_config_dict s)"

definition log_msg :: "level \<Rightarrow> string \<Rightarrow> 'd controller \<Rightarrow> 'd controller" where
  "log_msg l m s = s\<lparr>logger := logger s @ [(l, m)]\<rparr>"

definition invoke :: "call \<Rightarrow> ('d \<Rightarrow> 'd) \<Rightarrow> 'd controller \<Rightarrow> 'd controller" where
  "invoke c f s = s\<lparr>device := f (device s), calls := calls s @ [c]\<rparr>"


section \<open>Closing and stopping\<close>

definition close :: "'d env \<Rightarrow> 'd controller \<Rightarrow> bool \<times> 'd controller" where
  "close E s =
     (if \<not> sc_is_open E (device s) then
        (True, log_msg INFO ''Andor Spectrometer is already closed.'' s)
      else
        let s1 = log_msg INFO ''Closing Andor Spectrometer'' s;
            s2 = invoke DaqClose (daq_close E) s1;
            s3 = invoke Close (sc_close E) s2;
            connection_status = (\<not> sc_is_open E (device s3))
        in if connection_status then
             (connection_status, log_msg INFO ''Closing Andor Spectrometer was successful.'' s3)
           else
             (connection_status, log_msg INFO ''Closing Andor Spectrometer failed.'' s3))"

definition stop :: "'d env \<Rightarrow> 'd controller \<Rightarrow> 'd controller" where
  "stop E s =
     (let s1 = log_msg INFO ''Stopping controller.'' s;
          s2 = invoke StopWaiting (stop_waiting_to_reach_temperature E) s1
      in snd (close E s2))"


section \<open>Conversions of the interpreter\<close>

text \<open>
  \<^verbatim>\<open>int(x)\<close> and \<^verbatim>\<open>float(x)\<close> on the values of the model. \<^verbatim>\<open>int\<close> of a float
  truncates towards zero and rejects \<^verbatim>\<open>nan\<close> and the infinities; \<^verbatim>\<open>float\<close> of an
  integer is the nearest double, or an \<^verbatim>\<open>OverflowError\<close>; both reject \<^verbatim>\<open>None\<close> with
  a \<^verbatim>\<open>TypeError\<close>; a string goes through the interpreter's parser.
\<close>

definition py_int :: "'d env \<Rightarrow> pyval \<Rightarrow> exc + pyval" where
  "py_int E v =
     (case v of
        PNone \<Rightarrow> Inl TypeError
      | PBool b \<Rightarrow> Inr (PInt (if b then 1 else 0))
      | PInt i \<Rightarrow> Inr (PInt i)
      | PFloat NaN \<Rightarrow> Inl (ValueError ''nan'')
      | PFloat PInf \<Rightarrow> Inl OverflowError
      | PFloat NInf \<Rightarrow> Inl OverflowError
      | PFloat (Fl r) \<Rightarrow> Inr (PInt (if 0 \<le> r then \<lfloor>r\<rfloor> else \<lceil>r\<rceil>))
      | PStr t \<Rightarrow> (case int_of_str E t of None \<Rightarrow> Inl (ValueError t) | Some i \<Rightarrow> Inr (PInt i)))"

definition py_float :: "'d env \<Rightarrow> pyval \<Rightarrow> exc + pyval" where
  "py_float E v =
     (case v of
        PNone \<Rightarrow> Inl TypeError
      | PBool b \<Rightarrow> Inr (PFloat (Fl (if b then 1 else 0)))
      | PInt i \<Rightarrow>
          (case float_of_int E i of None \<Rightarrow> Inl OverflowError | Some f \<Rightarrow> Inr (PFloat f))
      | PFloat f \<Rightarrow> Inr (PFloat f)
      | PStr t \<Rightarrow> (case float_of_str E t of None \<Rightarrow> Inl (ValueError t) | Some f \<Rightarrow> Inr (PFloat f)))"

definition py_repr :: "'d env \<Rightarrow> pyval \<Rightarrow> string" where
  "py_repr E v =
     (case v of
        PNone \<Rightarrow> ''None''
      | PBool b \<Rightarrow> (if b then ''True'' else ''False'')
      | PInt i \<Rightarrow> str_of_int E i
      | PFloat f \<Rightarrow> str_of_float E f
      | PStr t \<Rightarrow> repr_of_str E t)"

definition py_str :: "'d env \<Rightarrow> pyval \<Rightarrow> string" where
  "py_str E v = (case v of PStr t \<Rightarrow> t | _ \<Rightarrow> py_repr E v)"

text \<open>\<^verbatim>\<open>str((a, b, c))\<close>: the representations of the components between parentheses.\<close>

definition py_str_tuple3 :: "'d env \<Rightarrow> pyval \<Rightarrow> pyval \<Rightarrow> pyval \<Rightarrow> string" where
  "py_str_tuple3 E a b c =
     ''('' @ py_repr E a @ '', '' @ py_repr E b @ '', '' @ py_repr E c @ '')''"

text \<open>\<^verbatim>\<open>s.split(',')\<close> always returns at least one piece.\<close>

fun split_comma :: "string \<Rightarrow> string list" where
  "split_comma [] = [[]]"
| "split_comma (c # cs) =
     (if c = CHR '','' then [] # split_comma cs
      else (case split_comma cs of [] \<Rightarrow> [[c]] | p # ps \<Rightarrow> (c # p) # ps))"

text \<open>\<^verbatim>\<open>s[1:-1].replace(' ', '').split(',')\<close>\<close>

definition hss_pieces :: "string \<Rightarrow> string list" where
  "hss_pieces t = split_comma (filter (\<lambda>c. c \<noteq> CHR '' '') (butlast (tl t)))"

text \<open>\<^verbatim>\<open>xs[i]\<close> for a non-negative index.\<close>

definition list_getitem :: "'a list \<Rightarrow> nat \<Rightarrow> exc + 'a" where
  "list_getitem xs i = (if i < length xs then Inr (xs ! i) else Inl IndexError)"


section \<open>Statements of \<^verbatim>\<open>configure\<close>\<close>

text \<open>
  A procedure returns the exception it raised, if any, with the state reached. Straight
  line code is a list of procedures, run until one raises.
\<close>

type_synonym 'd proc = "'d controller \<Rightarrow> exc option \<times> 'd controller"

fun run :: "'d proc list \<Rightarrow> 'd proc" where
  "run [] s = (None, s)"
| "run (p # ps) s = (case p s of (None, s') \<Rightarrow> run ps s' | (Some e, s') \<Rightarrow> (Some e, s'))"

definition assign :: "'d env \<Rightarrow> attr \<Rightarrow> pyval \<Rightarrow> 'd controller \<Rightarrow> 'd controller" where
  "assign E a v s = invoke (Set a v) (set_attr E a v) s"

text \<open>
  \<^verbatim>\<open>v = config_dict[key]; self.spectrometer_config.a = int(v) if v is not None else -1\<close>
\<close>

definition set_device_index :: "'d env \<Rightarrow> ref \<Rightarrow> string \<Rightarrow> attr \<Rightarrow> 'd proc" where
  "set_device_index E config_dict key a s =
     (case dict_getitem (deref (heap s) config_dict) key of
        Inl e \<Rightarrow> (Some e, s)
      | Inr v \<Rightarrow>
          if v \<noteq> PNone then
            (case py_int E v of
               Inl e \<Rightarrow> (Some e, s)
             | Inr i \<Rightarrow> (None, assign E a i s))
          else (None, assign E a (PInt (- 1)) s))"

text \<open>\<^verbatim>\<open>self.spectrometer_config.a = config_dict[key]\<close>\<close>

definition set_plain :: "'d env \<Rightarrow> ref \<Rightarrow> string \<Rightarrow> attr \<Rightarrow> 'd proc" where
  "set_plain E config_dict key a s =
     (case dict_getitem (deref (heap s) config_dict) key of
        Inl e \<Rightarrow> (Some e, s)
      | Inr v \<Rightarrow> (None, assign E a v s))"

text \<open>The two single-track fields are read first and written as one object.\<close>

definition set_single_track :: "'d env \<Rightarrow> ref \<Rightarrow> 'd proc" where
  "set_single_track E config_dict s =
     (case dict_getitem (deref (heap s) config_dict) ''single_track_center_row'' of
        Inl e \<Rightarrow> (Some e, s)
      | Inr single_track_center_row \<Rightarrow>
          (case dict_getitem (deref (heap s) config_dict) ''single_track_height'' of
             Inl e \<Rightarrow> (Some e, s)
           | Inr single_track_height \<Rightarrow>
               (None, invoke (SetTrack single_track_center_row single_track_height)
                        (set_track E single_track_center_row single_track_height) s)))"

text \<open>The vertical shift speed is converted only when it is a string.\<close>

definition set_vertical_shift_speed :: "'d env \<Rightarrow> ref \<Rightarrow> 'd proc" where
  "set_vertical_shift_speed E config_dict s =
     (case dict_getitem (deref (heap s) config_dict) ''vertical_shift_speed'' of
        Inl e \<Rightarrow> (Some e, s)
      | Inr vss_value \<Rightarrow>
          (case (case vss_value of PStr t \<Rightarrow> py_float E vss_value | _ \<Rightarrow> Inr vss_value) of
             Inl e \<Rightarrow> (Some e, s)
           | Inr v \<Rightarrow> (None, assign E VerticalShiftSpeed v s)))"

text \<open>
  The horizontal shift speed is one string for three attributes. Each piece is converted
  and assigned in turn, so a piece that fails leaves the earlier ones assigned. Slicing a
  value that is not a string is a \<^verbatim>\<open>TypeError\<close>.
\<close>

definition set_horizontal_shift_speed :: "'d env \<Rightarrow> ref \<Rightarrow> 'd proc" where
  "set_horizontal_shift_speed E config_dict s =
     (case dict_getitem (deref (heap s) config_dict) ''horizontal_shift_speed'' of
        Inl e \<Rightarrow> (Some e, s)
      | Inr PNone \<Rightarrow> (None, s)
      | Inr (PStr t) \<Rightarrow>
          (let hss_value = hss_pieces t in
           case list_getitem hss_value 0 of
             Inl e \<Rightarrow> (Some e, s)
           | Inr p0 \<Rightarrow>
          (case py_int E (PStr p0) of
             Inl e \<Rightarrow> (Some e, s)
           | Inr v0 \<Rightarrow>
          (let s1 = assign E AdChannel v0 s in
           case list_getitem hss_value 1 of
             Inl e \<Rightarrow> (Some e, s1)
           | Inr p1 \<Rightarrow>
          (case py_int E (PStr p1) of
             Inl e \<Rightarrow> (Some e, s1)
           | Inr v1 \<Rightarrow>
          (let s2 = assign E OutputAmplifier v1 s1 in
           case list_getitem hss_value 2 of
             Inl e \<Rightarrow> (Some e, s2)
           | Inr p2 \<Rightarrow>
          (case py_float E (PStr p2) of
             Inl e \<Rightarrow> (Some e, s2)
           | Inr v2 \<Rightarrow> (None, assign E HorizontalShiftSpeed v2 s2)))))))
      | Inr _ \<Rightarrow> (Some TypeError, s))"

definition set_pre_amp_gain :: "'d env \<Rightarrow> ref \<Rightarrow> 'd proc" where
  "set_pre_amp_gain E config_dict s =
     (case dict_getitem (deref (heap s) config_dict) ''pre_amp_gain'' of
        Inl e \<Rightarrow> (Some e, s)
      | Inr pre_amp_gain_value \<Rightarrow>
          if pre_amp_gain_value \<noteq> PNone then
            (case py_float E pre_amp_gain_value of
               Inl e \<Rightarrow> (Some e, s)
             | Inr v \<Rightarrow> (None, assign E PreAmpGain v s))
          else (None, s))"


text \<open>The assignments of \<^verbatim>\<open>configure\<close> to the device, in the order of the source.\<close>

definition write_settings :: "'d env \<Rightarrow> ref \<Rightarrow> 'd proc list" where
  "write_settings E config_dict =
     [ set_device_index E config_dict ''ccd_device_index'' CcdDeviceIndex,
       set_device_index E config_dict ''spg_device_index'' SpgDeviceIndex,
       set_plain E config_dict ''grating'' CurrentGrating,
       set_plain E config_dict ''center_wavelength'' CenterWavelength,
       set_plain E config_dict ''pixel_offset'' PixelOffset,
       set_plain E config_dict ''wavelength_offset'' WavelengthOffset,
       set_plain E config_dict ''input_port'' InputPort,
       set_plain E config_dict ''output_port'' OutputPort,
       set_plain E config_dict ''read_mode'' ReadMode,
       set_plain E config_dict ''acquisition_mode'' AcquisitionMode,
       set_plain E config_dict ''trigger_mode'' TriggerMode,
       set_plain E config_dict ''exposure_time'' ExposureTime,
       set_plain E config_dict ''number_of_accumulations'' NumberOfAccumulations,
       set_plain E config_dict ''accumulation_cycle_time'' AccumulationCycleTime,
       set_plain E config_dict ''number_of_kinetics'' NumberOfKinetics,
       set_plain E config_dict ''kinetic_cycle_time'' KineticCycleTime,
       set_plain E config_dict ''baseline_clamp'' BaselineClamp,
       set_plain E config_dict ''cosmic_ray_removal'' RemoveCosmicRays,
       set_plain E config_dict ''keep_clean_on_external_trigger'' KeepCleanOnExternalTrigger,
       set_single_track E config_dict,
       set_vertical_shift_speed E config_dict,
       set_horizontal_shift_speed E config_dict,
       set_pre_amp_gain E config_dict,
       set_plain E config_dict ''target_sensor_temperature'' SensorTemperatureSetPoint,
       set_plain E config_dict ''reach_temperature_before_acquisition''
         ReachTemperatureBeforeAcquisition,
       set_plain E config_dict ''cooler'' Cooler,
       set_plain E config_dict ''cooler_persistence'' CoolerPersistenceMode ]"


section \<open>Reading the device back into \<^verbatim>\<open>last_config_dict\<close>\<close>

definition store_setitem :: "string \<Rightarrow> pyval \<Rightarrow> 'd controller \<Rightarrow> 'd controller" where
  "store_setitem key v s =
     s\<lparr>heap := (heap s)[last_config_dict s := dict_setitem (store s) key v]\<rparr>"

definition read_attr :: "'d env \<Rightarrow> attr \<Rightarrow> 'd controller \<Rightarrow> pyval \<times> 'd controller" where
  "read_attr E a s = (get_attr E a (device s), s\<lparr>calls := calls s @ [Get a]\<rparr>)"

definition read_track :: "'d env \<Rightarrow> 'd controller \<Rightarrow> (pyval \<times> pyval) \<times> 'd controller" where
  "read_track E s = (get_track E (device s), s\<lparr>calls := calls s @ [GetTrack]\<rparr>)"

text \<open>\<^verbatim>\<open>self.last_config_dict[key] = self.spectrometer_config.a\<close>\<close>

definition keep :: "'d env \<Rightarrow> string \<Rightarrow> attr \<Rightarrow> 'd controller \<Rightarrow> 'd controller" where
  "keep E key a s = (case read_attr E a s of (v, s1) \<Rightarrow> store_setitem key v s1)"

text \<open>\<^verbatim>\<open>self.last_config_dict[key] = str(self.spectrometer_config.a)\<close>\<close>

definition keep_str :: "'d env \<Rightarrow> string \<Rightarrow> attr \<Rightarrow> 'd controller \<Rightarrow> 'd controller" where
  "keep_str E key a s =
     (case read_attr E a s of (v, s1) \<Rightarrow> store_setitem key (PStr (py_str E v)) s1)"

definition keep_track_center_row :: "'d env \<Rightarrow> 'd controller \<Rightarrow> 'd controller" where
  "keep_track_center_row E s =
     (case read_track E s of (p, s1) \<Rightarrow> store_setitem ''single_track_center_row'' (fst p) s1)"

definition keep_track_height :: "'d env \<Rightarrow> 'd controller \<Rightarrow> 'd controller" where
  "keep_track_height E s =
     (case read_track E s of (p, s1) \<Rightarrow> store_setitem ''single_track_height'' (snd p) s1)"

definition keep_horizontal_shift_speed :: "'d env \<Rightarrow> 'd controller \<Rightarrow> 'd controller" where
  "keep_horizontal_shift_speed E s =
     (case read_attr E AdChannel s of (a, s1) \<Rightarrow>
      case read_attr E OutputAmplifier s1 of (b, s2) \<Rightarrow>
      case read_attr E HorizontalShiftSpeed s2 of (c, s3) \<Rightarrow>
        store_setitem ''horizontal_shift_speed'' (PStr (py_str_tuple3 E a b c)) s3)"

fun do_all :: "('s \<Rightarrow> 's) list \<Rightarrow> 's \<Rightarrow> 's" where
  "do_all [] s = s"
| "do_all (f # fs) s = do_all fs (f s)"

definition read_back :: "'d env \<Rightarrow> ('d controller \<Rightarrow> 'd controller) list" where
  "read_back E =
     [ keep_str E ''ccd_device_index'' CcdDeviceIndex,
       keep_str E ''spg_device_index'' SpgDeviceIndex,
       keep E ''grating'' CurrentGrating,
       keep E ''center_wavelength'' CenterWavelength,
       keep E ''pixel_offset'' PixelOffset,
       keep E ''wavelength_offset'' WavelengthOffset,
       keep E ''input_port'' InputPort,
       keep E ''output_port'' OutputPort,
       keep E ''read_mode'' ReadMode,
       keep E ''acquisition_mode'' AcquisitionMode,
       keep E ''trigger_mode'' TriggerMode,
       keep E ''exposure_time'' ExposureTime,
       keep E ''number_of_accumulations'' NumberOfAccumulations,
       keep E ''accumulation_cycle_time'' AccumulationCycleTime,
       keep E ''number_of_kinetics'' NumberOfKinetics,
       keep E ''kinetic_cycle_time'' KineticCycleTime,
       keep E ''baseline_clamp'' BaselineClamp,
       keep E ''cosmic_ray_removal'' RemoveCosmicRays,
       keep E ''keep_clean_on_external_trigger'' KeepCleanOnExternalTrigger,
       keep_track_center_row E,
       keep_track_height E,
       keep_str E ''vertical_shift_speed'' VerticalShiftSpeed,
       keep_horizontal_shift_speed E,
       keep_str E ''pre_amp_gain'' PreAmpGain,
       keep E ''target_sensor_temperature'' SensorTemperatureSetPoint,
       keep E ''reach_temperature_before_acquisition'' ReachTemperatureBeforeAcquisition,
       keep E ''cooler'' Cooler,
       keep E ''cooler_persistence'' CoolerPersistenceMode ]"

definition update_config_dict_from_current_values ::
    "'d env \<Rightarrow> 'd controller \<Rightarrow> 'd controller" where
  "update_config_dict_from_current_values E s = do_all (read_back E) s"


section \<open>Configuring and opening\<close>

text \<open>
  The loop that completes the caller's dictionary from \<^verbatim>\<open>last_config_dict\<close>. It
  assigns into the object \<open>config_dict\<close> refers to.
\<close>

fun fill_loop :: "string list \<Rightarrow> ref \<Rightarrow> 'd proc" where
  "fill_loop [] config_dict s = (None, s)"
| "fill_loop (key # keys) config_dict s =
     (if get_is_None (deref (heap s) config_dict) key then
        (case dict_getitem (store s) key of
           Inl e \<Rightarrow> (Some e, s)
         | Inr v \<Rightarrow>
             fill_loop keys config_dict
               (s\<lparr>heap := (heap s)[config_dict := dict_setitem (deref (heap s) config_dict) key v]\<rparr>))
      else fill_loop keys config_dict s)"

text \<open>
  \<^verbatim>\<open>configure\<close> from the test of \<^verbatim>\<open>is_open\<close> on: what follows the attempt to
  connect.
\<close>

definition configure_body :: "'d env \<Rightarrow> ref \<Rightarrow> bool \<Rightarrow> 'd proc" where
  "configure_body E config_dict attempt_connection s =
     (if \<not> sc_is_open E (device s) then
        (None,
         log_msg ERROR ''Spectrometer is not open. Cannot configure.''
           (s\<lparr>heap := (heap s)[last_config_dict s :=
                 dict_update (store s) (deref (heap s) config_dict)]\<rparr>))
      else
        (case fill_loop (map fst (store s)) config_dict s of
           (Some e, s1) \<Rightarrow> (Some e, s1)
         | (None, s1) \<Rightarrow>
        (case run (write_settings E config_dict) s1 of
           (Some e, s2) \<Rightarrow> (Some e, s2)
         | (None, s2) \<Rightarrow>
        (let s3 = update_config_dict_from_current_values E s2
         in if attempt_connection then (None, snd (close E s3)) else (None, s3)))))"

text \<open>
  \<^verbatim>\<open>open\<close> and \<^verbatim>\<open>configure\<close> call each other: \<^verbatim>\<open>configure\<close> opens when the
  store is empty or a connection is asked for, \<^verbatim>\<open>open\<close> configures from a copy of a store
  that is not empty, without asking for a connection. The copy is a new object on the heap.
\<close>

function open_conn :: "'d env \<Rightarrow> 'd controller \<Rightarrow> (exc + bool) \<times> 'd controller"
  and configure :: "'d env \<Rightarrow> ref \<Rightarrow> bool \<Rightarrow> 'd controller \<Rightarrow> exc option \<times> 'd controller"
where
  "open_conn E s =
     (if sc_is_open E (sc_open E (device s)) then
        (if store s \<noteq> [] then
           (case configure E (length (heap s)) False
                   ((log_msg INFO ''Opening Andor Spectrometer was successful.''
                      (invoke Open (sc_open E)
                        (log_msg INFO ''Opening Andor Spectrometer'' s)))
                    \<lparr>heap := heap s @ [store s]\<rparr>) of
              (Some e, s') \<Rightarrow> (Inl e, s')
            | (None, s') \<Rightarrow>
                (Inr True, log_msg INFO ''Latest configuration settings were set.'' s'))
         else
           (Inr True,
            log_msg INFO ''Latest configuration settings were set.''
              (log_msg INFO ''Opening Andor Spectrometer was successful.''
                (invoke Open (sc_open E)
                  (log_msg INFO ''Opening Andor Spectrometer'' s)))))
      else
        (Inr False,
         log_msg INFO ''Opening Andor Spectrometer failed.''
           (invoke Open (sc_open E) (log_msg INFO ''Opening Andor Spectrometer'' s))))"
| "configure E config_dict attempt_connection s =
     (if store s = [] then
        (case open_conn E
                (log_msg DEBUG ''First instantiation of the Andor Spectrometer controller. Establishing connection now...''
                  (log_msg DEBUG ''Calling configure on the Andor spectrometer controller'' s)) of
           (Inl e, s') \<Rightarrow> (Some e, s')
         | (Inr b, s') \<Rightarrow> configure_body E config_dict attempt_connection s')
      else if attempt_connection then
        (case open_conn E
                (log_msg DEBUG ''Subsequent call for configuration outside of configuration GUI. Establishing connection now...''
                  (log_msg DEBUG ''Calling configure on the Andor spectrometer controller'' s)) of
           (Inl e, s') \<Rightarrow> (Some e, s')
         | (Inr b, s') \<Rightarrow> configure_body E config_dict attempt_connection s')
      else
        configure_body E config_dict attempt_connection
          (log_msg DEBUG ''Calling configure on the Andor spectrometer controller'' s))"
  by pat_completeness auto
termination
  by (relation "measure (\<lambda>x. case x of
          Inl (E, s) \<Rightarrow> 1
        | Inr (E, c, a, s) \<Rightarrow> if store s = [] \<or> a then 2 else 0)")
     (auto simp: store_def deref_def log_msg_def invoke_def nth_append split: if_splits)

declare open_conn.simps [simp del] configure.simps [simp del]


section \<open>The clock rate\<close>














section \<open>A simulated device\<close>

text \<open>
  For running the model: a device that keeps what it is given and returns it, and that
  connects and disconnects only when its flags allow it; with it an interpreter for the
  examples. Its conversion of text to an integer is the interpreter's: blanks around the
  text, a sign, decimal digits, single underscores between digits, at most 4300 digits.
  Its conversion of text to a float takes a decimal literal with fraction and exponent, or
  \<^verbatim>\<open>inf\<close>, \<^verbatim>\<open>infinity\<close>, \<^verbatim>\<open>nan\<close>. Arithmetic and the value of a literal are exact:
  they are those of the doubles whenever the exact result is a double, as in every
  example below, and are not rounded otherwise. A float is printed as the interpreter
  prints it when it is \<^verbatim>\<open>nan\<close>, an infinity, or a whole number below \<open>10\<^sup>1\<^sup>6\<close>; a
  string is printed between single quotes, which is the interpreter's form for a text
  without quotes, backslashes and control characters.
\<close>

record sim_dev =
  sim_open :: bool
  sim_connects :: bool
  sim_disconnects :: bool
  sim_attrs :: "attr \<Rightarrow> pyval"
  sim_track :: "pyval \<times> pyval"

text \<open>The decimal digits with their values.\<close>

definition digit_table :: "(char \<times> nat) list" where
  "digit_table =
     [ (CHR ''0'', 0), (CHR ''1'', 1), (CHR ''2'', 2), (CHR ''3'', 3), (CHR ''4'', 4),
       (CHR ''5'', 5), (CHR ''6'', 6), (CHR ''7'', 7), (CHR ''8'', 8), (CHR ''9'', 9) ]"

definition digit_of :: "char \<Rightarrow> nat option" where
  "digit_of c = map_of digit_table c"

definition digit_char :: "nat \<Rightarrow> char" where
  "digit_char n = fst (digit_table ! (n mod 10))"

definition is_space :: "char \<Rightarrow> bool" where
  "is_space c =
     (c = CHR '' '' \<or> c = CHR 0x09 \<or> c = CHR 0x0A \<or> c = CHR 0x0B \<or> c = CHR 0x0C
      \<or> c = CHR 0x0D \<or> c = CHR 0x1C \<or> c = CHR 0x1D \<or> c = CHR 0x1E \<or> c = CHR 0x1F)"

definition strip :: "string \<Rightarrow> string" where
  "strip t = rev (dropWhile is_space (rev (dropWhile is_space t)))"

text \<open>An underscore is dropped between two digits and refused anywhere else.\<close>

fun drop_underscores :: "bool \<Rightarrow> string \<Rightarrow> string option" where
  "drop_underscores after_digit [] = Some []"
| "drop_underscores after_digit (c # cs) =
     (if c = CHR ''_'' then
        (if after_digit \<and> (case cs of [] \<Rightarrow> False | d # ds \<Rightarrow> digit_of d \<noteq> None)
         then drop_underscores False cs else None)
      else map_option ((#) c) (drop_underscores (digit_of c \<noteq> None) cs))"

fun digits_value :: "nat \<Rightarrow> string \<Rightarrow> nat option" where
  "digits_value acc [] = Some acc"
| "digits_value acc (c # cs) =
     (case digit_of c of None \<Rightarrow> None | Some n \<Rightarrow> digits_value (10 * acc + n) cs)"

text \<open>A sign, if any, and the rest of the text.\<close>

definition split_sign :: "string \<Rightarrow> bool \<times> string" where
  "split_sign t =
     (case t of
        [] \<Rightarrow> (False, [])
      | c # cs \<Rightarrow>
          if c = CHR ''-'' then (True, cs) else if c = CHR ''+'' then (False, cs) else (False, t))"

definition sim_int_of_str :: "string \<Rightarrow> int option" where
  "sim_int_of_str t =
     (case drop_underscores False (strip t) of
        None \<Rightarrow> None
      | Some u \<Rightarrow>
          (case split_sign u of (negative, ds) \<Rightarrow>
             if ds = [] \<or> 4300 < length ds then None
             else map_option (\<lambda>n. if negative then - int n else int n) (digits_value 0 ds)))"

definition lower :: "char \<Rightarrow> char" where
  "lower c =
     (if c = CHR ''I'' then CHR ''i'' else if c = CHR ''N'' then CHR ''n''
      else if c = CHR ''F'' then CHR ''f'' else if c = CHR ''T'' then CHR ''t''
      else if c = CHR ''Y'' then CHR ''y'' else if c = CHR ''A'' then CHR ''a''
      else if c = CHR ''E'' then CHR ''e'' else c)"

text \<open>
  The value of \<open>digits\<close> times ten to the power \<open>k\<close>, and the finite decimal literals:
  digits with at most one point, then possibly an exponent.
\<close>

definition scale10 :: "nat \<Rightarrow> int \<Rightarrow> real" where
  "scale10 n k = (if 0 \<le> k then of_nat n * 10 ^ nat k else of_nat n / 10 ^ nat (- k))"

definition decimal_value :: "string \<Rightarrow> real option" where
  "decimal_value t =
     (let mantissa = takeWhile (\<lambda>c. c \<noteq> CHR ''e'') t;
          exponent = dropWhile (\<lambda>c. c \<noteq> CHR ''e'') t;
          whole = takeWhile (\<lambda>c. c \<noteq> CHR ''.'') mantissa;
          fraction = (case dropWhile (\<lambda>c. c \<noteq> CHR ''.'') mantissa of [] \<Rightarrow> [] | p # fs \<Rightarrow> fs)
      in if whole @ fraction = [] then None
         else
           (case digits_value 0 (whole @ fraction) of
              None \<Rightarrow> None
            | Some n \<Rightarrow>
                (case exponent of
                   [] \<Rightarrow> Some (scale10 n (- int (length fraction)))
                 | e # es \<Rightarrow>
                     (case split_sign es of (negative, ds) \<Rightarrow>
                        if ds = [] then None
                        else
                          (case digits_value 0 ds of
                             None \<Rightarrow> None
                           | Some k \<Rightarrow>
                               Some (scale10 n
                                 ((if negative then - int k else int k)
                                   - int (length fraction))))))))"

definition sim_float_of_str :: "string \<Rightarrow> pyfloat option" where
  "sim_float_of_str t =
     (case drop_underscores False (map lower (strip t)) of
        None \<Rightarrow> None
      | Some u \<Rightarrow>
          (case split_sign u of (negative, body) \<Rightarrow>
             if body = ''inf'' \<or> body = ''infinity'' then Some (if negative then NInf else PInf)
             else if body = ''nan'' then Some NaN
             else map_option (\<lambda>r. Fl (if negative then - r else r)) (decimal_value body)))"

fun digits_of :: "nat \<Rightarrow> string" where
  "digits_of n =
     (if n < 10 then [digit_char n] else digits_of (n div 10) @ [digit_char (n mod 10)])"

declare digits_of.simps [simp del]

definition sim_str_of_int :: "int \<Rightarrow> string" where
  "sim_str_of_int i = (if i < 0 then CHR ''-'' # digits_of (nat (- i)) else digits_of (nat i))"

definition sim_str_of_float :: "pyfloat \<Rightarrow> string" where
  "sim_str_of_float f =
     (case f of
        NaN \<Rightarrow> ''nan''
      | PInf \<Rightarrow> ''inf''
      | NInf \<Rightarrow> ''-inf''
      | Fl r \<Rightarrow>
          if r = of_int \<lfloor>r\<rfloor> \<and> \<bar>r\<bar> < 10000000000000000
          then sim_str_of_int \<lfloor>r\<rfloor> @ ''.0'' else ''<float>'')"

text \<open>
  The double nearest to an integer: the integer itself up to 53 bits, rounded to 53 bits
  with ties to even beyond, and none from \<open>2\<^sup>1\<^sup>0\<^sup>2\<^sup>4\<close> on.
\<close>

fun bit_length :: "nat \<Rightarrow> nat" where
  "bit_length n = (if n = 0 then 0 else Suc (bit_length (n div 2)))"

declare bit_length.simps [simp del]

definition round_to_double :: "nat \<Rightarrow> nat option" where
  "round_to_double n =
     (if bit_length n \<le> 53 then Some n
      else
        let shift = bit_length n - 53;
            q = n div 2 ^ shift;
            r = n mod 2 ^ shift;
            half = 2 ^ (shift - 1);
            q' = (if half < r \<or> (r = half \<and> odd q) then q + 1 else q)
        in if 2 ^ 1024 \<le> q' * 2 ^ shift then None else Some (q' * 2 ^ shift))"

definition sim_float_of_int :: "int \<Rightarrow> pyfloat option" where
  "sim_float_of_int i =
     map_option (\<lambda>n. Fl (if i < 0 then - of_nat n else of_nat n)) (round_to_double (nat \<bar>i\<bar>))"

definition sim :: "sim_dev env" where
  "sim =
     \<lparr> sc_open = (\<lambda>d. if sim_connects d then d\<lparr>sim_open := True\<rparr> else d),
       sc_close = (\<lambda>d. if sim_disconnects d then d\<lparr>sim_open := False\<rparr> else d),
       sc_is_open = sim_open,
       get_attr = (\<lambda>a d. sim_attrs d a),
       set_attr = (\<lambda>a v d. d\<lparr>sim_attrs := (sim_attrs d)(a := v)\<rparr>),
       get_track = sim_track,
       set_track = (\<lambda>c h d. d\<lparr>sim_track := (c, h)\<rparr>),
       daq_close = (\<lambda>d. d),
       stop_waiting_to_reach_temperature = (\<lambda>d. d),
       int_of_str = sim_int_of_str,
       float_of_str = sim_float_of_str,
       str_of_int = sim_str_of_int,
       str_of_float = sim_str_of_float,
       repr_of_str = (\<lambda>t. [CHR 0x27] @ t @ [CHR 0x27]),
       float_of_int = sim_float_of_int,
       float_mul = (\<lambda>x y. Fl (x * y)),
       float_recip = (\<lambda>x. Fl (1 / x)),
       int_recip = (\<lambda>i. Fl (1 / of_int i)),
       str_repeat = (\<lambda>t n. Inr (concat (replicate (nat n) t))) \<rparr>"

definition sim_device :: "bool \<Rightarrow> bool \<Rightarrow> bool \<Rightarrow> sim_dev" where
  "sim_device is_open connects disconnects =
     \<lparr> sim_open = is_open, sim_connects = connects, sim_disconnects = disconnects,
       sim_attrs = (\<lambda>a. PNone), sim_track = (PNone, PNone) \<rparr>"

text \<open>A controller with its store as the only object on the heap.\<close>

definition controller_with :: "'d \<Rightarrow> dict \<Rightarrow> 'd controller" where
  "controller_with d st =
     \<lparr> device = d, heap = [st], last_config_dict = 0, logger = [], calls = [] \<rparr>"


section \<open>The order of the calls on the device\<close>

text \<open>
  The assignments to the device are the calls \<open>Set\<close> and \<open>SetTrack\<close>; \<open>written\<close>
  lists the attributes a sequence of calls assigns. \<open>write_order\<close> is the order of the
  fields in the description of the reconciler: device indices, grating and centre
  wavelength, the two offsets, the ports, the three modes, the timing, the pre-processing
  flags, the single-track geometry, shift speeds and gain, the temperature set point with
  its flag, the cooler with its flag. \<open>always_written\<close> leaves out the four attributes
  whose assignment is skipped for a field that is \<^verbatim>\<open>None\<close>. \<open>read_calls\<close> is the
  full pass of reads.
\<close>

fun is_write :: "call \<Rightarrow> bool" where
  "is_write (Set a v) = True"
| "is_write (SetTrack c h) = True"
| "is_write c = False"

fun written :: "call list \<Rightarrow> attr list" where
  "written [] = []"
| "written (Set a v # cs) = a # written cs"
| "written (SetTrack c h # cs) = SingleTrackReadModeParameters # written cs"
| "written (c # cs) = written cs"

definition write_order :: "attr list" where
  "write_order =
     [ CcdDeviceIndex, SpgDeviceIndex,
       CurrentGrating, CenterWavelength,
       PixelOffset, WavelengthOffset,
       InputPort, OutputPort,
       ReadMode, AcquisitionMode, TriggerMode,
       ExposureTime, NumberOfAccumulations, AccumulationCycleTime,
       NumberOfKinetics, KineticCycleTime,
       BaselineClamp, RemoveCosmicRays, KeepCleanOnExternalTrigger,
       SingleTrackReadModeParameters,
       VerticalShiftSpeed, AdChannel, OutputAmplifier, HorizontalShiftSpeed, PreAmpGain,
       SensorTemperatureSetPoint, ReachTemperatureBeforeAcquisition,
       Cooler, CoolerPersistenceMode ]"

definition always_written :: "attr list" where
  "always_written =
     [ CcdDeviceIndex, SpgDeviceIndex,
       CurrentGrating, CenterWavelength,
       PixelOffset, WavelengthOffset,
       InputPort, OutputPort,
       ReadMode, AcquisitionMode, TriggerMode,
       ExposureTime, NumberOfAccumulations, AccumulationCycleTime,
       NumberOfKinetics, KineticCycleTime,
       BaselineClamp, RemoveCosmicRays, KeepCleanOnExternalTrigger,
       SingleTrackReadModeParameters,
       VerticalShiftSpeed,
       SensorTemperatureSetPoint, ReachTemperatureBeforeAcquisition,
       Cooler, CoolerPersistenceMode ]"

definition read_calls :: "call list" where
  "read_calls =
     [ Get CcdDeviceIndex, Get SpgDeviceIndex, Get CurrentGrating, Get CenterWavelength,
       Get PixelOffset, Get WavelengthOffset, Get InputPort, Get OutputPort,
       Get ReadMode, Get AcquisitionMode, Get TriggerMode,
       Get ExposureTime, Get NumberOfAccumulations, Get AccumulationCycleTime,
       Get NumberOfKinetics, Get KineticCycleTime,
       Get BaselineClamp, Get RemoveCosmicRays, Get KeepCleanOnExternalTrigger,
       GetTrack, GetTrack,
       Get VerticalShiftSpeed, Get AdChannel, Get OutputAmplifier, Get HorizontalShiftSpeed,
       Get PreAmpGain,
       Get SensorTemperatureSetPoint, Get ReachTemperatureBeforeAcquisition,
       Get Cooler, Get CoolerPersistenceMode ]"


text \<open>
  A complete configuration for the examples: every field \<^verbatim>\<open>configure\<close> looks up, with
  \<^verbatim>\<open>None\<close> for the shift speeds and the gain.
\<close>

definition example_config :: dict where
  "example_config =
     [ (''ccd_device_index'', PStr ''0''), (''spg_device_index'', PNone),
       (''grating'', PStr ''g1''), (''center_wavelength'', PInt 700),
       (''pixel_offset'', PInt 0), (''wavelength_offset'', PInt 0),
       (''input_port'', PStr ''direct''), (''output_port'', PStr ''side''),
       (''read_mode'', PStr ''FVB''), (''acquisition_mode'', PStr ''SINGLE_SCAN''),
       (''trigger_mode'', PStr ''INTERNAL''),
       (''exposure_time'', PInt 2), (''number_of_accumulations'', PInt 1),
       (''accumulation_cycle_time'', PInt 2), (''number_of_kinetics'', PInt 1),
       (''kinetic_cycle_time'', PInt 2),
       (''baseline_clamp'', PBool True), (''cosmic_ray_removal'', PBool False),
       (''keep_clean_on_external_trigger'', PBool False),
       (''single_track_center_row'', PInt 100), (''single_track_height'', PInt 20),
       (''vertical_shift_speed'', PNone), (''horizontal_shift_speed'', PNone),
       (''pre_amp_gain'', PNone),
       (''target_sensor_temperature'', PInt (- 70)),
       (''reach_temperature_before_acquisition'', PBool False),
       (''cooler'', PBool True), (''cooler_persistence'', PBool False) ]"

text \<open>
  \<open>emits p tg req\<close>: from every state, the procedure \<open>p\<close> only adds assignments to the
  calls, of attributes taken in order from \<open>tg\<close>, all of \<open>req\<close> among them when it
  returns normally; it leaves the heap, the store reference and the log alone.
\<close>

definition emits :: "'d proc \<Rightarrow> attr list \<Rightarrow> attr list \<Rightarrow> bool" where
  "emits p tg req =
     (\<forall>s. \<exists>ws. calls (snd (p s)) = calls s @ ws \<and> list_all is_write ws
        \<and> subseq (written ws) tg
        \<and> (fst (p s) = None \<longrightarrow> set req \<subseteq> set (written ws))
        \<and> heap (snd (p s)) = heap s
        \<and> last_config_dict (snd (p s)) = last_config_dict s
        \<and> logger (snd (p s)) = logger s)"


text \<open>
  \<open>reads f cs\<close>: from every state, \<open>f\<close> adds exactly the calls \<open>cs\<close>, leaves the
  device and the log alone, and changes no object of the heap but the store.
\<close>

definition reads :: "('d controller \<Rightarrow> 'd controller) \<Rightarrow> call list \<Rightarrow> bool" where
  "reads f cs =
     (\<forall>s. calls (f s) = calls s @ cs \<and> device (f s) = device s
        \<and> last_config_dict (f s) = last_config_dict s \<and> logger (f s) = logger s
        \<and> length (heap (f s)) = length (heap s)
        \<and> (\<forall>r. r \<noteq> last_config_dict s \<longrightarrow> heap (f s) ! r = heap s ! r))"


section \<open>Notions used to state the properties\<close>

text \<open>
  The state in which \<^verbatim>\<open>open\<close> hands a copy of the store to \<^verbatim>\<open>configure\<close>: the device
  has been asked to connect, the copy is the newest object of the heap.
\<close>

definition connected_with_copy :: "'d env \<Rightarrow> 'd controller \<Rightarrow> 'd controller" where
  "connected_with_copy E s =
     log_msg DEBUG ''Calling configure on the Andor spectrometer controller''
       ((log_msg INFO ''Opening Andor Spectrometer was successful.''
          (invoke Open (sc_open E) (log_msg INFO ''Opening Andor Spectrometer'' s)))
        \<lparr>heap := heap s @ [store s]\<rparr>)"

text \<open>
  The fields that \<^verbatim>\<open>configure\<close> hands to the device as they are, with the attribute
  each one is assigned to.
\<close>

definition plain_fields :: "(string \<times> attr) list" where
  "plain_fields =
     [ (''grating'', CurrentGrating), (''center_wavelength'', CenterWavelength),
       (''pixel_offset'', PixelOffset), (''wavelength_offset'', WavelengthOffset),
       (''input_port'', InputPort), (''output_port'', OutputPort),
       (''read_mode'', ReadMode), (''acquisition_mode'', AcquisitionMode),
       (''trigger_mode'', TriggerMode),
       (''exposure_time'', ExposureTime),
       (''number_of_accumulations'', NumberOfAccumulations),
       (''accumulation_cycle_time'', AccumulationCycleTime),
       (''number_of_kinetics'', NumberOfKinetics),
       (''kinetic_cycle_time'', KineticCycleTime),
       (''baseline_clamp'', BaselineClamp), (''cosmic_ray_removal'', RemoveCosmicRays),
       (''keep_clean_on_external_trigger'', KeepCleanOnExternalTrigger),
       (''target_sensor_temperature'', SensorTemperatureSetPoint),
       (''reach_temperature_before_acquisition'', ReachTemperatureBeforeAcquisition),
       (''cooler'', Cooler), (''cooler_persistence'', CoolerPersistenceMode) ]"

text \<open>States for the examples.\<close>

definition first_call_state :: "sim_dev controller" where
  "first_call_state =
     \<lparr> device = sim_device False False True,
       heap = [[], [(''exposure_time'', PInt 2)]],
       last_config_dict = 0, logger = [], calls = [] \<rparr>"


definition bad_ccd_state :: "sim_dev controller" where
  "bad_ccd_state =
     \<lparr> device = sim_device False True True,
       heap = [[], [(''ccd_device_index'', PStr ''abc'')]],
       last_config_dict = 0, logger = [], calls = [] \<rparr>"

definition bad_spg_state :: "sim_dev controller" where
  "bad_spg_state =
     \<lparr> device = sim_device False True True,
       heap = [[], [(''ccd_device_index'', PStr ''0''), (''spg_device_index'', PStr ''abc'')]],
       last_config_dict = 0, logger = [], calls = [] \<rparr>"

definition partial_request_state :: "sim_dev controller" where
  "partial_request_state =
     \<lparr> device = sim_device True True True,
       heap = [example_config, [(''exposure_time'', PInt 5)]],
       last_config_dict = 0, logger = [], calls = [] \<rparr>"


section \<open>What the calls do to the device\<close>

text \<open>
  Each recorded call stands for one operation of the adapter. \<open>replay\<close> applies a
  sequence of calls to a device: it is what the device has become once the calls were
  made in that order; a read leaves the device as it is. \<open>perform\<close> is the effect of
  such a sequence on the controller: the device is replayed and the calls are added to
  the record.
\<close>

fun apply_call :: "'d env \<Rightarrow> call \<Rightarrow> 'd \<Rightarrow> 'd" where
  "apply_call E Open d = sc_open E d"
| "apply_call E Close d = sc_close E d"
| "apply_call E DaqClose d = daq_close E d"
| "apply_call E StopWaiting d = stop_waiting_to_reach_temperature E d"
| "apply_call E (Set a v) d = set_attr E a v d"
| "apply_call E (SetTrack c h) d = set_track E c h d"
| "apply_call E (Get a) d = d"
| "apply_call E GetTrack d = d"

definition replay :: "'d env \<Rightarrow> call list \<Rightarrow> 'd \<Rightarrow> 'd" where
  "replay E cs d = fold (apply_call E) cs d"

definition perform :: "'d env \<Rightarrow> call list \<Rightarrow> 'd controller \<Rightarrow> 'd controller" where
  "perform E cs s = s\<lparr>device := replay E cs (device s), calls := calls s @ cs\<rparr>"


section \<open>The assignments the reconciler is to make\<close>



















section \<open>Configurations for the examples\<close>











section \<open>Stopping and closing: what the connection does\<close>

text \<open>
  Claim C2, as the code has it: \<^verbatim>\<open>stop()\<close> cancels the wait for the target temperature
  and then calls \<^verbatim>\<open>close()\<close>. When the device is open at that point the acquisition
  object is closed and the device is disconnected, so the connection after \<^verbatim>\<open>stop()\<close> is
  the one \<^verbatim>\<open>close()\<close> leaves; when the device is already closed, nothing more is called.
\<close>

theorem stop_cancels_then_closes:
  "calls (stop E s) =
     calls s @ StopWaiting #
       (if sc_is_open E (stop_waiting_to_reach_temperature E (device s))
        then [DaqClose, Close] else [])
   \<and> device (stop E s) =
       (if sc_is_open E (stop_waiting_to_reach_temperature E (device s))
        then sc_close E (daq_close E (stop_waiting_to_reach_temperature E (device s)))
        else stop_waiting_to_reach_temperature E (device s))"
  by (simp add: stop_def close_def invoke_def log_msg_def Let_def)

text \<open>
  Claim C2 as it is written says that \<^verbatim>\<open>stop()\<close> does not call \<^verbatim>\<open>close()\<close> and leaves
  the connection as it was. On an open device that disconnects when asked, \<^verbatim>\<open>stop()\<close>
  closes the acquisition object, disconnects, and the device is no longer open.
\<close>

theorem stop_closes_counterexample:
  "sc_is_open sim (device (controller_with (sim_device True True True) []))
   \<and> \<not> sc_is_open sim (device (stop sim (controller_with (sim_device True True True) [])))
   \<and> calls (stop sim (controller_with (sim_device True True True) []))
       = [StopWaiting, DaqClose, Close]"
  by (simp add: stop_def close_def invoke_def log_msg_def Let_def sim_def sim_device_def
      controller_with_def)


section \<open>The write phase emits its assignments in order\<close>

lemma written_append [simp]: "written (xs @ ys) = written xs @ written ys"
  by (induction xs rule: written.induct) auto

lemma emits_Nil: "emits (run []) [] []"
  by (simp add: emits_def)

lemma emits_seq:
  assumes p: "emits p tg req" and ps: "emits (run ps) tgs reqs"
  shows "emits (run (p # ps)) (tg @ tgs) (req @ reqs)"
  unfolding emits_def
proof
  fix s
  from p obtain ws where ws: "calls (snd (p s)) = calls s @ ws" "list_all is_write ws"
    "subseq (written ws) tg" "fst (p s) = None \<longrightarrow> set req \<subseteq> set (written ws)"
    "heap (snd (p s)) = heap s" "last_config_dict (snd (p s)) = last_config_dict s"
    "logger (snd (p s)) = logger s"
    unfolding emits_def by blast
  show "\<exists>ws. calls (snd (run (p # ps) s)) = calls s @ ws \<and> list_all is_write ws
        \<and> subseq (written ws) (tg @ tgs)
        \<and> (fst (run (p # ps) s) = None \<longrightarrow> set (req @ reqs) \<subseteq> set (written ws))
        \<and> heap (snd (run (p # ps) s)) = heap s
        \<and> last_config_dict (snd (run (p # ps) s)) = last_config_dict s
        \<and> logger (snd (run (p # ps) s)) = logger s"
  proof (cases "fst (p s)")
    case (Some e)
    then have r: "run (p # ps) s = (Some e, snd (p s))"
      by (cases "p s") simp
    have "subseq (written ws) (tg @ tgs)"
      using ws(3) by (metis append_Nil2 list_emb_append_mono list_emb_Nil)
    with ws Some r show ?thesis by auto
  next
    case None
    then have r: "run (p # ps) s = run ps (snd (p s))"
      by (cases "p s") simp
    from ps obtain vs where vs: "calls (snd (run ps (snd (p s)))) = calls (snd (p s)) @ vs"
      "list_all is_write vs" "subseq (written vs) tgs"
      "fst (run ps (snd (p s))) = None \<longrightarrow> set reqs \<subseteq> set (written vs)"
      "heap (snd (run ps (snd (p s)))) = heap (snd (p s))"
      "last_config_dict (snd (run ps (snd (p s)))) = last_config_dict (snd (p s))"
      "logger (snd (run ps (snd (p s)))) = logger (snd (p s))"
      unfolding emits_def by blast
    have "subseq (written (ws @ vs)) (tg @ tgs)"
      using ws(3) vs(3) by (simp add: list_emb_append_mono)
    moreover have "calls (snd (run (p # ps) s)) = calls s @ (ws @ vs)"
      using r ws(1) vs(1) by simp
    moreover have "list_all is_write (ws @ vs)" using ws(2) vs(2) by simp
    moreover have "fst (run (p # ps) s) = None \<longrightarrow> set (req @ reqs) \<subseteq> set (written (ws @ vs))"
      using r ws(4) vs(4) None by auto
    ultimately show ?thesis using r ws vs by (intro exI[of _ "ws @ vs"]) simp
  qed
qed

lemma emits_plain: "emits (set_plain E c k a) [a] [a]"
  by (auto simp: emits_def set_plain_def assign_def invoke_def split: sum.splits)

lemma emits_index: "emits (set_device_index E c k a) [a] [a]"
  by (auto simp: emits_def set_device_index_def assign_def invoke_def split: sum.splits)

lemma emits_track: "emits (set_single_track E c) [SingleTrackReadModeParameters] [SingleTrackReadModeParameters]"
  by (auto simp: emits_def set_single_track_def assign_def invoke_def split: sum.splits)

lemma emits_vss: "emits (set_vertical_shift_speed E c) [VerticalShiftSpeed] [VerticalShiftSpeed]"
  by (auto simp: emits_def set_vertical_shift_speed_def assign_def invoke_def split: sum.splits pyval.splits)

lemma emits_hss: "emits (set_horizontal_shift_speed E c) [AdChannel, OutputAmplifier, HorizontalShiftSpeed] []"
  by (auto simp: emits_def set_horizontal_shift_speed_def assign_def invoke_def Let_def split: sum.splits pyval.splits)

lemma emits_gain: "emits (set_pre_amp_gain E c) [PreAmpGain] []"
  by (auto simp: emits_def set_pre_amp_gain_def assign_def invoke_def split: sum.splits)

lemma emits_plain_Cons:
  "emits (run ps) tgs reqs \<Longrightarrow> emits (run (set_plain E c k a # ps)) (a # tgs) (a # reqs)"
  using emits_seq [OF emits_plain] by fastforce

lemma emits_index_Cons:
  "emits (run ps) tgs reqs \<Longrightarrow> emits (run (set_device_index E c k a # ps)) (a # tgs) (a # reqs)"
  using emits_seq [OF emits_index] by fastforce

lemma emits_track_Cons:
  "emits (run ps) tgs reqs \<Longrightarrow>
   emits (run (set_single_track E c # ps)) (SingleTrackReadModeParameters # tgs)
     (SingleTrackReadModeParameters # reqs)"
  using emits_seq [OF emits_track] by fastforce

lemma emits_vss_Cons:
  "emits (run ps) tgs reqs \<Longrightarrow>
   emits (run (set_vertical_shift_speed E c # ps)) (VerticalShiftSpeed # tgs)
     (VerticalShiftSpeed # reqs)"
  using emits_seq [OF emits_vss] by fastforce

lemma emits_hss_Cons:
  "emits (run ps) tgs reqs \<Longrightarrow>
   emits (run (set_horizontal_shift_speed E c # ps))
     (AdChannel # OutputAmplifier # HorizontalShiftSpeed # tgs) reqs"
  using emits_seq [OF emits_hss] by fastforce

lemma emits_gain_Cons:
  "emits (run ps) tgs reqs \<Longrightarrow> emits (run (set_pre_amp_gain E c # ps)) (PreAmpGain # tgs) reqs"
  using emits_seq [OF emits_gain] by fastforce

lemma emits_write_settings: "emits (run (write_settings E c)) write_order always_written"
  unfolding write_settings_def write_order_def always_written_def
  by (intro emits_plain_Cons emits_index_Cons emits_track_Cons emits_vss_Cons emits_hss_Cons
      emits_gain_Cons emits_Nil)


section \<open>The read-back pass, the loop that fills, and the body of \<^verbatim>\<open>configure\<close>\<close>

lemma reads_Nil: "reads (do_all []) []"
  by (simp add: reads_def)

lemma reads_seq:
  assumes "reads f cs" and "reads (do_all fs) ds"
  shows "reads (do_all (f # fs)) (cs @ ds)"
  using assms unfolding reads_def by simp

lemma reads_keep: "reads (keep E k a) [Get a]"
  by (simp add: reads_def keep_def read_attr_def store_setitem_def)

lemma reads_keep_str: "reads (keep_str E k a) [Get a]"
  by (simp add: reads_def keep_str_def read_attr_def store_setitem_def)

lemma reads_center_row: "reads (keep_track_center_row E) [GetTrack]"
  by (simp add: reads_def keep_track_center_row_def read_track_def store_setitem_def)

lemma reads_height: "reads (keep_track_height E) [GetTrack]"
  by (simp add: reads_def keep_track_height_def read_track_def store_setitem_def)

lemma reads_hss:
  "reads (keep_horizontal_shift_speed E) [Get AdChannel, Get OutputAmplifier, Get HorizontalShiftSpeed]"
  by (simp add: reads_def keep_horizontal_shift_speed_def read_attr_def store_setitem_def)

lemma reads_keep_Cons:
  "reads (do_all fs) ds \<Longrightarrow> reads (do_all (keep E k a # fs)) (Get a # ds)"
  using reads_seq [OF reads_keep] by fastforce

lemma reads_keep_str_Cons:
  "reads (do_all fs) ds \<Longrightarrow> reads (do_all (keep_str E k a # fs)) (Get a # ds)"
  using reads_seq [OF reads_keep_str] by fastforce

lemma reads_center_row_Cons:
  "reads (do_all fs) ds \<Longrightarrow> reads (do_all (keep_track_center_row E # fs)) (GetTrack # ds)"
  using reads_seq [OF reads_center_row] by fastforce

lemma reads_height_Cons:
  "reads (do_all fs) ds \<Longrightarrow> reads (do_all (keep_track_height E # fs)) (GetTrack # ds)"
  using reads_seq [OF reads_height] by fastforce

lemma reads_hss_Cons:
  "reads (do_all fs) ds \<Longrightarrow>
   reads (do_all (keep_horizontal_shift_speed E # fs))
     (Get AdChannel # Get OutputAmplifier # Get HorizontalShiftSpeed # ds)"
  using reads_seq [OF reads_hss] by fastforce

lemma reads_update_config_dict: "reads (update_config_dict_from_current_values E) read_calls"
proof -
  have "reads (do_all (read_back E)) read_calls"
    unfolding read_back_def read_calls_def
    by (intro reads_keep_Cons reads_keep_str_Cons reads_center_row_Cons reads_height_Cons
        reads_hss_Cons reads_Nil)
  moreover have "update_config_dict_from_current_values E = do_all (read_back E)"
    by (rule ext) (simp add: update_config_dict_from_current_values_def)
  ultimately show ?thesis by simp
qed

lemma fill_loop_frame:
  "calls (snd (fill_loop ks c s)) = calls s \<and> device (snd (fill_loop ks c s)) = device s
   \<and> logger (snd (fill_loop ks c s)) = logger s
   \<and> last_config_dict (snd (fill_loop ks c s)) = last_config_dict s
   \<and> length (heap (snd (fill_loop ks c s))) = length (heap s)
   \<and> (\<forall>r. r \<noteq> c \<longrightarrow> heap (snd (fill_loop ks c s)) ! r = heap s ! r)"
  by (induction ks arbitrary: s) (auto split: sum.splits)

lemma close_calls:
  "\<exists>cs. calls (snd (close E s)) = calls s @ cs \<and> (cs = [] \<or> cs = [DaqClose, Close])"
  by (simp add: close_def invoke_def log_msg_def Let_def)

text \<open>What a statement of the write phase emits is found in the calls of the whole phase.\<close>

lemma run_extends:
  assumes "\<And>p s. p \<in> set ps \<Longrightarrow>
      heap (snd (p s)) = heap s \<and> (\<exists>ws. calls (snd (p s)) = calls s @ ws)"
  shows "\<exists>ws. calls (snd (run ps s)) = calls s @ ws"
  using assms
proof (induction ps arbitrary: s)
  case Nil
  then show ?case by simp
next
  case (Cons p ps)
  obtain r s1 where p: "p s = (r, s1)" by (cases "p s")
  from Cons.prems [of p s] p obtain ws1 where c1: "calls s1 = calls s @ ws1" by auto
  show ?case
  proof (cases r)
    case None
    from Cons.IH [of s1] Cons.prems obtain ws2 where
      "calls (snd (run ps s1)) = calls s1 @ ws2" by auto
    with None p c1 show ?thesis by simp
  next
    case (Some e)
    with p c1 show ?thesis by simp
  qed
qed

lemma run_emitted:
  assumes fr: "\<And>p s. p \<in> set ps \<Longrightarrow>
      heap (snd (p s)) = heap s \<and> (\<exists>ws. calls (snd (p s)) = calls s @ ws)"
    and mem: "q \<in> set ps"
    and ok: "fst (run ps s) = None"
    and q: "\<And>s'. heap s' = heap s \<Longrightarrow> fst (q s') = None \<Longrightarrow>
      \<exists>ws. calls (snd (q s')) = calls s' @ ws \<and> x \<in> set ws"
  shows "\<exists>ws. calls (snd (run ps s)) = calls s @ ws \<and> x \<in> set ws"
  using fr mem ok q
proof (induction ps arbitrary: s)
  case Nil
  then show ?case by simp
next
  case (Cons p ps)
  obtain r s1 where p: "p s = (r, s1)" by (cases "p s")
  with Cons.prems(3) have r: "r = None" and ok': "fst (run ps s1) = None"
    by (cases r; simp)+
  from Cons.prems(1) [of p s] p obtain ws1 where
    h1: "heap s1 = heap s" and c1: "calls s1 = calls s @ ws1" by auto
  have run: "run (p # ps) s = run ps s1" using p r by simp
  obtain ws2 where c2: "calls (snd (run ps s1)) = calls s1 @ ws2"
    using run_extends [of ps s1] Cons.prems(1) by auto
  show ?case
  proof (cases "q = p")
    case True
    from Cons.prems(4) [of s] p r True obtain ws where
      "calls s1 = calls s @ ws" "x \<in> set ws" by auto
    with c2 run show ?thesis by auto
  next
    case False
    with Cons.prems(2) have "q \<in> set ps" by simp
    moreover have "\<And>s'. heap s' = heap s1 \<Longrightarrow> fst (q s') = None \<Longrightarrow>
      \<exists>ws. calls (snd (q s')) = calls s' @ ws \<and> x \<in> set ws"
      using Cons.prems(4) h1 by simp
    ultimately obtain ws where "calls (snd (run ps s1)) = calls s1 @ ws" "x \<in> set ws"
      using Cons.IH [of s1] Cons.prems(1) ok' by auto
    with c1 run show ?thesis by auto
  qed
qed

lemma emits_frame:
  "emits p tg req \<Longrightarrow> heap (snd (p s)) = heap s \<and> (\<exists>ws. calls (snd (p s)) = calls s @ ws)"
  unfolding emits_def by blast

lemma write_settings_frame:
  assumes "p \<in> set (write_settings E c)"
  shows "heap (snd (p s)) = heap s \<and> (\<exists>ws. calls (snd (p s)) = calls s @ ws)"
proof -
  have "\<exists>tg req. emits p tg req"
    using assms unfolding write_settings_def
    by (auto intro: emits_plain emits_index emits_track emits_vss emits_hss emits_gain)
  then show ?thesis using emits_frame by blast
qed

lemma plain_member:
  "(k, a) \<in> set plain_fields \<Longrightarrow> set_plain E c k a \<in> set (write_settings E c)"
  by (auto simp: plain_fields_def write_settings_def)

lemma set_plain_emitted:
  assumes "dict_get (deref (heap s) c) k = Some v" and "heap s' = heap s"
  shows "\<exists>ws. calls (snd (set_plain E c k a s')) = calls s' @ ws \<and> Set a v \<in> set ws"
  using assms by (simp add: set_plain_def dict_getitem_def dict_get_def assign_def invoke_def)

lemma write_settings_plain:
  assumes "(k, a) \<in> set plain_fields" and "fst (run (write_settings E c) s) = None"
    and "dict_get (deref (heap s) c) k = Some v"
  shows "\<exists>ws. calls (snd (run (write_settings E c) s)) = calls s @ ws \<and> Set a v \<in> set ws"
  using run_emitted [of "write_settings E c" "set_plain E c k a" s "Set a v"]
    write_settings_frame [of _ E c] plain_member [OF assms(1), of E c] assms(2)
    set_plain_emitted [OF assms(3)]
  by blast




lemma configure_body_trace:
  assumes "sc_is_open E (device s)"
  shows "\<exists>ws rs cs. calls (snd (configure_body E c a s)) = calls s @ ws @ rs @ cs
     \<and> list_all is_write ws \<and> subseq (written ws) write_order
     \<and> (case fst (configure_body E c a s) of
          None \<Rightarrow> rs = read_calls \<and> set always_written \<subseteq> set (written ws)
                 \<and> (cs = [] \<or> a \<and> cs = [DaqClose, Close])
                 \<and> (\<forall>(k, a') \<in> set plain_fields. \<forall>v.
                      dict_get (deref (heap (snd (fill_loop (map fst (store s)) c s))) c) k = Some v
                      \<longrightarrow> Set a' v \<in> set ws)
        | Some e \<Rightarrow> rs = [] \<and> cs = [])"
proof (cases "fill_loop (map fst (store s)) c s")
  case (Pair r1 s1)
  have f: "calls s1 = calls s"
    using fill_loop_frame [of "map fst (store s)" c s] Pair by simp
  show ?thesis
  proof (cases r1)
    case (Some e)
    with Pair assms f show ?thesis
      by (simp add: configure_body_def)
  next
    case None
    obtain r2 s2 where w: "run (write_settings E c) s1 = (r2, s2)"
      by (cases "run (write_settings E c) s1")
    from emits_write_settings [of E c] obtain ws where ws:
      "calls s2 = calls s1 @ ws" "list_all is_write ws" "subseq (written ws) write_order"
      "r2 = None \<longrightarrow> set always_written \<subseteq> set (written ws)"
      unfolding emits_def using w by (metis fst_conv snd_conv)
    show ?thesis
    proof (cases r2)
      case (Some e)
      with Pair None w ws f assms show ?thesis
        by (auto simp: configure_body_def intro!: exI[of _ ws])
    next
      case r2: None
      have plain: "\<forall>(k, a') \<in> set plain_fields. \<forall>v.
          dict_get (deref (heap s1) c) k = Some v \<longrightarrow> Set a' v \<in> set ws"
      proof (intro ballI allI impI, clarify)
        fix k a' v
        assume m: "(k, a') \<in> set plain_fields" and v: "dict_get (deref (heap s1) c) k = Some v"
        from write_settings_plain [OF m _ v, of E] w r2 obtain ws' where
          "calls s2 = calls s1 @ ws'" "Set a' v \<in> set ws'" by auto
        with ws(1) show "Set a' v \<in> set ws" by simp
      qed
      let ?s3 = "update_config_dict_from_current_values E s2"
      have s3: "calls ?s3 = calls s2 @ read_calls"
        using reads_update_config_dict [of E] unfolding reads_def by blast
      obtain cs where cs: "calls (snd (close E ?s3)) = calls ?s3 @ cs"
        "cs = [] \<or> cs = [DaqClose, Close]"
        using close_calls by blast
      have s1: "snd (fill_loop (map fst (store s)) c s) = s1" using Pair by simp
      show ?thesis
      proof (cases a)
        case True
        with Pair None w r2 assms have
          "configure_body E c a s = (None, snd (close E ?s3))"
          by (simp add: configure_body_def Let_def)
        with ws s3 cs f r2 True plain show ?thesis
          unfolding s1
          by (intro exI[of _ ws] exI[of _ read_calls] exI[of _ cs]) auto
      next
        case False
        with Pair None w r2 assms have
          "configure_body E c a s = (None, ?s3)"
          by (simp add: configure_body_def Let_def)
        with ws s3 f r2 False plain show ?thesis
          unfolding s1
          by (intro exI[of _ ws] exI[of _ read_calls] exI[of _ "[]"]) auto
      qed
    qed
  qed
qed





lemma fill_loop_content:
  assumes "c < length (heap s)" and "c \<noteq> last_config_dict s"
    and "set ks \<subseteq> dom (map_of (store s))"
  shows "\<exists>s1. fill_loop ks c s = (None, s1) \<and> store s1 = store s \<and>
     (\<forall>k. map_of (deref (heap s1) c) k =
        (if k \<in> set ks \<and> get_is_None (deref (heap s) c) k then map_of (store s) k
         else map_of (deref (heap s) c) k))"
  using assms
proof (induction ks arbitrary: s)
  case Nil
  then show ?case by simp
next
  case (Cons k ks)
  then obtain v where v: "map_of (store s) k = Some v" by auto
  show ?case
  proof (cases "get_is_None (deref (heap s) c) k")
    case True
    let ?s' = "s\<lparr>heap := (heap s)[c := dict_setitem (deref (heap s) c) k v]\<rparr>"
    have st: "store ?s' = store s"
      using Cons.prems(2) by (simp add: store_def deref_def)
    have d: "deref (heap ?s') c = dict_setitem (deref (heap s) c) k v"
      using Cons.prems(1) by (simp add: deref_def)
    from Cons.IH [of ?s'] Cons.prems st obtain s1 where s1:
      "fill_loop ks c ?s' = (None, s1)" "store s1 = store s"
      "\<forall>k'. map_of (deref (heap s1) c) k' =
        (if k' \<in> set ks \<and> get_is_None (deref (heap ?s') c) k' then map_of (store s) k'
         else map_of (deref (heap ?s') c) k')"
      by auto
    have "fill_loop (k # ks) c s = (None, s1)"
      using True v s1(1) by (simp add: dict_getitem_def)
    moreover have "\<forall>k'. map_of (deref (heap s1) c) k' =
        (if k' \<in> set (k # ks) \<and> get_is_None (deref (heap s) c) k' then map_of (store s) k'
         else map_of (deref (heap s) c) k')"
      using s1(3) True v unfolding d
      by (auto simp: dict_setitem_def update_conv' get_is_None_def)
    ultimately show ?thesis using s1(2) by blast
  next
    case False
    with Cons.IH [of s] Cons.prems show ?thesis by auto
  qed
qed

lemma dom_map_fst: "set (map fst al) \<subseteq> dom (map_of al)"
  by (auto simp: dom_map_of_conv_image_fst)


section \<open>Opening and configuring, case by case\<close>

lemma store_log_msg [simp]: "store (log_msg l m s) = store s"
  by (simp add: store_def log_msg_def)

lemma configure_body_extends:
  "\<exists>rest. calls (snd (configure_body E c a s)) = calls s @ rest"
proof (cases "sc_is_open E (device s)")
  case True
  from configure_body_trace [OF True, of c a] obtain ws rs cs where
    "calls (snd (configure_body E c a s)) = calls s @ ws @ rs @ cs" by blast
  then have "calls (snd (configure_body E c a s)) = calls s @ (ws @ rs @ cs)" by simp
  then show ?thesis by (rule exI)
next
  case False
  then show ?thesis by (simp add: configure_body_def log_msg_def)
qed

lemma configure_no_connect:
  "store s \<noteq> [] \<Longrightarrow>
   configure E c False s =
     configure_body E c False
       (log_msg DEBUG ''Calling configure on the Andor spectrometer controller'' s)"
  by (simp add: configure.simps)

lemma configure_first:
  "store s = [] \<Longrightarrow>
   configure E c a s =
     (case open_conn E
             (log_msg DEBUG ''First instantiation of the Andor Spectrometer controller. Establishing connection now...''
               (log_msg DEBUG ''Calling configure on the Andor spectrometer controller'' s)) of
        (Inl e, s') \<Rightarrow> (Some e, s')
      | (Inr b, s') \<Rightarrow> configure_body E c a s')"
  by (simp add: configure.simps)

lemma configure_connect:
  "store s \<noteq> [] \<Longrightarrow>
   configure E c True s =
     (case open_conn E
             (log_msg DEBUG ''Subsequent call for configuration outside of configuration GUI. Establishing connection now...''
               (log_msg DEBUG ''Calling configure on the Andor spectrometer controller'' s)) of
        (Inl e, s') \<Rightarrow> (Some e, s')
      | (Inr b, s') \<Rightarrow> configure_body E c True s')"
  by (simp add: configure.simps)

lemma open_conn_failed:
  "\<not> sc_is_open E (sc_open E (device s)) \<Longrightarrow>
   open_conn E s =
     (Inr False,
      log_msg INFO ''Opening Andor Spectrometer failed.''
        (invoke Open (sc_open E) (log_msg INFO ''Opening Andor Spectrometer'' s)))"
  by (simp add: open_conn.simps)

lemma open_conn_empty:
  "sc_is_open E (sc_open E (device s)) \<Longrightarrow> store s = [] \<Longrightarrow>
   open_conn E s =
     (Inr True,
      log_msg INFO ''Latest configuration settings were set.''
        (log_msg INFO ''Opening Andor Spectrometer was successful.''
          (invoke Open (sc_open E) (log_msg INFO ''Opening Andor Spectrometer'' s))))"
  by (simp add: open_conn.simps)

lemma store_nonempty_wf: "store s \<noteq> [] \<Longrightarrow> last_config_dict s < length (heap s)"
  by (auto simp: store_def deref_def split: if_splits)

lemma connected_with_copy_simps:
  "calls (connected_with_copy E s) = calls s @ [Open]"
  "device (connected_with_copy E s) = sc_open E (device s)"
  "heap (connected_with_copy E s) = heap s @ [store s]"
  "last_config_dict (connected_with_copy E s) = last_config_dict s"
  by (simp_all add: connected_with_copy_def log_msg_def invoke_def)

lemma store_connected_with_copy:
  "store s \<noteq> [] \<Longrightarrow> store (connected_with_copy E s) = store s"
proof -
  assume "store s \<noteq> []"
  then have "last_config_dict s < length (heap s)"
    by (rule store_nonempty_wf)
  then show ?thesis
    by (simp add: store_def deref_def connected_with_copy_simps nth_append)
qed

lemma open_conn_reapply:
  assumes "sc_is_open E (sc_open E (device s))" and "store s \<noteq> []"
  shows "open_conn E s =
     (case configure_body E (length (heap s)) False (connected_with_copy E s) of
        (Some e, s') \<Rightarrow> (Inl e, s')
      | (None, s') \<Rightarrow>
          (Inr True, log_msg INFO ''Latest configuration settings were set.'' s'))"
proof -
  let ?s1 = "(log_msg INFO ''Opening Andor Spectrometer was successful.''
                      (invoke Open (sc_open E)
                        (log_msg INFO ''Opening Andor Spectrometer'' s)))
                    \<lparr>heap := heap s @ [store s]\<rparr>"
  have "store ?s1 = store s"
    using store_connected_with_copy [OF assms(2), of E]
    by (simp add: connected_with_copy_def)
  then have "configure E (length (heap s)) False ?s1 =
      configure_body E (length (heap s)) False (connected_with_copy E s)"
    using configure_no_connect [of ?s1 E "length (heap s)"] assms(2)
    by (simp add: connected_with_copy_def)
  then show ?thesis
    using assms by (simp add: open_conn.simps)
qed

lemma open_conn_extends:
  "\<exists>rest. calls (snd (open_conn E s)) = calls s @ Open # rest"
proof (cases "sc_is_open E (sc_open E (device s))")
  case False
  then show ?thesis by (simp add: open_conn_failed log_msg_def invoke_def)
next
  case True
  show ?thesis
  proof (cases "store s = []")
    case e: True
    with True show ?thesis by (simp add: open_conn_empty log_msg_def invoke_def)
  next
    case False
    obtain r s' where rs:
      "configure_body E (length (heap s)) False (connected_with_copy E s) = (r, s')"
      by (cases "configure_body E (length (heap s)) False (connected_with_copy E s)")
    obtain rest where
      "calls s' = calls (connected_with_copy E s) @ rest"
      using configure_body_extends [of E "length (heap s)" False "connected_with_copy E s"] rs
      by auto
    then have "calls s' = calls s @ Open # rest"
      by (simp add: connected_with_copy_simps)
    then show ?thesis
      using open_conn_reapply [OF True False] rs by (cases r) (simp_all add: log_msg_def)
  qed
qed


section \<open>Closing\<close>

text \<open>
  Claim C5, as the code has it: \<^verbatim>\<open>close()\<close> raises nothing and its result tells what the
  device reports afterwards: it is true exactly when the device is no longer open. A
  disconnect that fails therefore returns false and leaves the connection open, not
  closed. A following \<^verbatim>\<open>open()\<close> asks the device to connect whatever the state: its
  first call on the device is the connection attempt.
\<close>

theorem close_reports_failure_by_result:
  "fst (close E s) = (\<not> sc_is_open E (device (snd (close E s))))
   \<and> (\<exists>rest. calls (snd (open_conn E (snd (close E s)))) = calls (snd (close E s)) @ Open # rest)"
  using open_conn_extends [of E "snd (close E s)"]
  by (simp add: close_def invoke_def log_msg_def Let_def)

text \<open>
  Claim C5 as it is written says that a failed close leaves the connection closed. On an
  open device that does not disconnect, \<^verbatim>\<open>close()\<close> returns false and the device is
  still open.
\<close>

theorem failed_close_counterexample:
  "fst (close sim (controller_with (sim_device True True False) [])) = False
   \<and> sc_is_open sim (device (snd (close sim (controller_with (sim_device True True False) []))))"
  by (simp add: close_def invoke_def log_msg_def Let_def sim_def sim_device_def
      controller_with_def)


section \<open>Configuring a device that is not open\<close>

lemma configure_body_not_open:
  "\<not> sc_is_open E (device s) \<Longrightarrow>
   configure_body E c a s =
     (None,
      log_msg ERROR ''Spectrometer is not open. Cannot configure.''
        (s\<lparr>heap := (heap s)[last_config_dict s :=
              dict_update (store s) (deref (heap s) c)]\<rparr>))"
  by (simp add: configure_body_def)

lemma configure_not_open:
  assumes wf: "last_config_dict s < length (heap s)"
    and n: "\<not> sc_is_open E (if store s = [] \<or> a then sc_open E (device s) else device s)"
  shows "fst (configure E c a s) = None
          \<and> store (snd (configure E c a s)) = dict_update (store s) (deref (heap s) c)
          \<and> last (logger (snd (configure E c a s))) =
              (ERROR, ''Spectrometer is not open. Cannot configure.'')
          \<and> calls (snd (configure E c a s)) = calls s @ (if store s = [] \<or> a then [Open] else [])"
proof (cases "store s = [] \<or> a")
  case False
  then have "configure E c a s = configure_body E c False
       (log_msg DEBUG ''Calling configure on the Andor spectrometer controller'' s)"
    using configure_no_connect [of s E c] by simp
  moreover have "\<not> sc_is_open E
      (device (log_msg DEBUG ''Calling configure on the Andor spectrometer controller'' s))"
    using n False by (simp add: log_msg_def)
  ultimately show ?thesis
    using wf False
    by (simp add: configure_body_not_open) (simp add: log_msg_def store_def deref_def)
next
  case True
  define m where "m = (if store s = [] then
       ''First instantiation of the Andor Spectrometer controller. Establishing connection now...''
     else ''Subsequent call for configuration outside of configuration GUI. Establishing connection now...'')"
  let ?s1 = "log_msg DEBUG m
      (log_msg DEBUG ''Calling configure on the Andor spectrometer controller'' s)"
  have c: "configure E c a s =
     (case open_conn E ?s1 of
        (Inl e, s') \<Rightarrow> (Some e, s')
      | (Inr b, s') \<Rightarrow> configure_body E c a s')"
  proof (cases "store s = []")
    case True
    then show ?thesis using configure_first [of s E c a] by (simp add: m_def)
  next
    case False
    with True have "a = True" by simp
    show ?thesis
      unfolding \<open>a = True\<close> using False configure_connect [of s E c] by (simp add: m_def)
  qed
  have d: "device ?s1 = device s" by (simp add: log_msg_def)
  have n1: "\<not> sc_is_open E (sc_open E (device ?s1))"
    using n True d by simp
  let ?s2 = "log_msg INFO ''Opening Andor Spectrometer failed.''
        (invoke Open (sc_open E) (log_msg INFO ''Opening Andor Spectrometer'' ?s1))"
  have o: "open_conn E ?s1 = (Inr False, ?s2)"
    using open_conn_failed [OF n1] .
  have n2: "\<not> sc_is_open E (device ?s2)"
    using n1 by (simp add: log_msg_def invoke_def)
  have "configure E c a s = configure_body E c a ?s2"
    using c o by simp
  then show ?thesis
    using wf True n2
    by (simp add: configure_body_not_open)
       (simp add: log_msg_def invoke_def store_def deref_def)
qed

text \<open>
  Claim C1: when the device is not open after the connection step of \<^verbatim>\<open>configure\<close>
  (after the attempt to connect, made when the store is empty or a connection is asked
  for), the call returns normally, the store is the old store updated with the request,
  the last entry of the log is the error that the spectrometer is not open, and the only
  call on the device is that attempt. With an empty store the first call on the device is
  the connection attempt also when no connection is asked for.
\<close>

theorem configure_not_open_records_request:
  assumes wf: "last_config_dict s < length (heap s)"
  shows "(\<not> sc_is_open E (if store s = [] \<or> a then sc_open E (device s) else device s) \<longrightarrow>
            fst (configure E c a s) = None
          \<and> store (snd (configure E c a s)) = dict_update (store s) (deref (heap s) c)
          \<and> last (logger (snd (configure E c a s))) =
              (ERROR, ''Spectrometer is not open. Cannot configure.'')
          \<and> calls (snd (configure E c a s)) = calls s @ (if store s = [] \<or> a then [Open] else []))
       \<and> (store s = [] \<longrightarrow>
            (\<exists>rest. calls (snd (configure E c False s)) = calls s @ Open # rest))"
proof (intro conjI impI)
  assume e: "store s = []"
  let ?s1 = "log_msg DEBUG ''First instantiation of the Andor Spectrometer controller. Establishing connection now...''
                  (log_msg DEBUG ''Calling configure on the Andor spectrometer controller'' s)"
  obtain r s' where o: "open_conn E ?s1 = (r, s')" by (cases "open_conn E ?s1")
  obtain rest where rest: "calls s' = calls ?s1 @ Open # rest"
    using open_conn_extends [of E ?s1] o by auto
  have c1: "calls ?s1 = calls s" by (simp add: log_msg_def)
  show "\<exists>rest. calls (snd (configure E c False s)) = calls s @ Open # rest"
  proof (cases r)
    case (Inl x)
    with e o rest c1 show ?thesis by (simp add: configure_first)
  next
    case (Inr b)
    obtain more where "calls (snd (configure_body E c False s')) = calls s' @ more"
      using configure_body_extends by blast
    with Inr e o rest c1 show ?thesis by (simp add: configure_first)
  qed
next
  assume n: "\<not> sc_is_open E (if store s = [] \<or> a then sc_open E (device s) else device s)"
  note r = configure_not_open [OF wf n, of c]
  from r show "fst (configure E c a s) = None" by blast
  from r show "store (snd (configure E c a s)) = dict_update (store s) (deref (heap s) c)"
    by blast
  from r show "last (logger (snd (configure E c a s))) =
              (ERROR, ''Spectrometer is not open. Cannot configure.'')" by blast
  from r show "calls (snd (configure E c a s)) = calls s @ (if store s = [] \<or> a then [Open] else [])"
    by blast
qed

theorem configure_not_open_records_request_witness:
  "last_config_dict first_call_state < length (heap first_call_state)
   \<and> store first_call_state = []
   \<and> \<not> sc_is_open sim (sc_open sim (device first_call_state))
   \<and> fst (configure sim 1 False first_call_state) = None
   \<and> store (snd (configure sim 1 False first_call_state)) = [(''exposure_time'', PInt 2)]
   \<and> last (logger (snd (configure sim 1 False first_call_state))) =
        (ERROR, ''Spectrometer is not open. Cannot configure.'')
   \<and> calls (snd (configure sim 1 False first_call_state)) = [Open]"
proof -
  have wf: "last_config_dict first_call_state < length (heap first_call_state)"
    by (simp add: first_call_state_def)
  have e: "store first_call_state = []"
    by (simp add: first_call_state_def store_def deref_def)
  have n: "\<not> sc_is_open sim (sc_open sim (device first_call_state))"
    by (simp add: first_call_state_def sim_def sim_device_def)
  have u: "dict_update (store first_call_state) (deref (heap first_call_state) 1)
      = [(''exposure_time'', PInt 2)]"
    by (simp add: first_call_state_def store_def deref_def dict_update_def dict_setitem_def)
  have c: "calls first_call_state = []"
    by (simp add: first_call_state_def)
  from configure_not_open_records_request [OF wf, of sim False 1] e n u c wf
  show ?thesis by simp
qed


section \<open>Omitted fields keep the value of the store\<close>


lemma fill_from_store:
  assumes "c < length (heap s)" and "c \<noteq> last_config_dict s"
  shows "\<exists>s1. fill_loop (map fst (store s)) c s = (None, s1) \<and> store s1 = store s \<and>
     (\<forall>k. dict_get (deref (heap s1) c) k =
        (if get_is_None (deref (heap s) c) k \<and> dict_get (store s) k \<noteq> None
         then dict_get (store s) k else dict_get (deref (heap s) c) k))"
proof -
  from fill_loop_content [OF assms dom_map_fst] obtain s1 where s1:
    "fill_loop (map fst (store s)) c s = (None, s1)" "store s1 = store s"
    "\<forall>k. map_of (deref (heap s1) c) k =
        (if k \<in> set (map fst (store s)) \<and> get_is_None (deref (heap s) c) k
         then map_of (store s) k else map_of (deref (heap s) c) k)"
    by blast
  have "\<And>k. k \<in> set (map fst (store s)) \<longleftrightarrow> map_of (store s) k \<noteq> None"
    by (simp add: map_of_eq_None_iff)
  with s1 show ?thesis
    by (intro exI[of _ s1]) (auto simp: dict_get_def)
qed


section \<open>Opening re-applies the store from a copy\<close>





section \<open>Values that do not convert\<close>

lemma run_first_raises:
  "p s = (Some e, s') \<Longrightarrow> run (p # ps) s = (Some e, s')"
  by simp

lemma split_comma_nonempty: "split_comma xs \<noteq> []"
  by (induction xs) (auto split: list.splits)

text \<open>
  Claim C9, as the code has it: a horizontal shift speed or a gain that is \<^verbatim>\<open>None\<close> when
  its statement is reached is skipped, with no conversion and no call on the device. A
  device index, a vertical shift speed, a gain or the first piece of a horizontal shift
  speed given as text that does not convert raises \<^verbatim>\<open>ValueError\<close> with that text and
  nothing else, and leaves the state as it is; for the first field of the write phase the
  exception leaves \<^verbatim>\<open>configure\<close> before any call on the device.
\<close>

theorem conversion_failure_is_a_ValueError:
  "(dict_get (deref (heap s) c) ''horizontal_shift_speed'' = Some PNone \<longrightarrow>
      set_horizontal_shift_speed E c s = (None, s))
   \<and> (dict_get (deref (heap s) c) ''pre_amp_gain'' = Some PNone \<longrightarrow>
      set_pre_amp_gain E c s = (None, s))
   \<and> (dict_get (deref (heap s) c) k = Some (PStr t) \<longrightarrow> int_of_str E t = None \<longrightarrow>
      set_device_index E c k a s = (Some (ValueError t), s))
   \<and> (dict_get (deref (heap s) c) ''vertical_shift_speed'' = Some (PStr t) \<longrightarrow>
      float_of_str E t = None \<longrightarrow>
      set_vertical_shift_speed E c s = (Some (ValueError t), s))
   \<and> (dict_get (deref (heap s) c) ''pre_amp_gain'' = Some (PStr t) \<longrightarrow>
      float_of_str E t = None \<longrightarrow>
      set_pre_amp_gain E c s = (Some (ValueError t), s))
   \<and> (dict_get (deref (heap s) c) ''horizontal_shift_speed'' = Some (PStr t) \<longrightarrow>
      int_of_str E (hd (hss_pieces t)) = None \<longrightarrow>
      set_horizontal_shift_speed E c s = (Some (ValueError (hd (hss_pieces t))), s))
   \<and> (sc_is_open E (device s) \<longrightarrow> c < length (heap s) \<longrightarrow> c \<noteq> last_config_dict s \<longrightarrow>
      dict_get (deref (heap s) c) ''ccd_device_index'' = Some (PStr t) \<longrightarrow>
      int_of_str E t = None \<longrightarrow>
        fst (configure_body E c att s) = Some (ValueError t)
      \<and> calls (snd (configure_body E c att s)) = calls s)"
proof (intro conjI impI)
  assume "dict_get (deref (heap s) c) ''horizontal_shift_speed'' = Some PNone"
  then show "set_horizontal_shift_speed E c s = (None, s)"
    by (simp add: set_horizontal_shift_speed_def dict_getitem_def dict_get_def)
next
  assume "dict_get (deref (heap s) c) ''pre_amp_gain'' = Some PNone"
  then show "set_pre_amp_gain E c s = (None, s)"
    by (simp add: set_pre_amp_gain_def dict_getitem_def dict_get_def)
next
  assume "dict_get (deref (heap s) c) k = Some (PStr t)" and "int_of_str E t = None"
  then show "set_device_index E c k a s = (Some (ValueError t), s)"
    by (simp add: set_device_index_def dict_getitem_def dict_get_def py_int_def)
next
  assume "dict_get (deref (heap s) c) ''vertical_shift_speed'' = Some (PStr t)"
    and "float_of_str E t = None"
  then show "set_vertical_shift_speed E c s = (Some (ValueError t), s)"
    by (simp add: set_vertical_shift_speed_def dict_getitem_def dict_get_def py_float_def)
next
  assume "dict_get (deref (heap s) c) ''pre_amp_gain'' = Some (PStr t)"
    and "float_of_str E t = None"
  then show "set_pre_amp_gain E c s = (Some (ValueError t), s)"
    by (simp add: set_pre_amp_gain_def dict_getitem_def dict_get_def py_float_def)
next
  assume "dict_get (deref (heap s) c) ''horizontal_shift_speed'' = Some (PStr t)"
    and "int_of_str E (hd (hss_pieces t)) = None"
  moreover have "hss_pieces t \<noteq> []"
    by (simp add: hss_pieces_def split_comma_nonempty)
  ultimately show "set_horizontal_shift_speed E c s = (Some (ValueError (hd (hss_pieces t))), s)"
    by (simp add: set_horizontal_shift_speed_def dict_getitem_def dict_get_def py_int_def
        list_getitem_def hd_conv_nth Let_def)
next
  assume o: "sc_is_open E (device s)" and c: "c < length (heap s)"
    and na: "c \<noteq> last_config_dict s"
    and v: "dict_get (deref (heap s) c) ''ccd_device_index'' = Some (PStr t)"
    and n: "int_of_str E t = None"
  from fill_from_store [OF c na] obtain s1 where s1:
    "fill_loop (map fst (store s)) c s = (None, s1)"
    "\<forall>k. dict_get (deref (heap s1) c) k =
        (if get_is_None (deref (heap s) c) k \<and> dict_get (store s) k \<noteq> None
         then dict_get (store s) k else dict_get (deref (heap s) c) k)"
    by blast
  have "\<not> get_is_None (deref (heap s) c) ''ccd_device_index''"
    using v by (simp add: get_is_None_def dict_get_def)
  with s1(2) v have "dict_get (deref (heap s1) c) ''ccd_device_index'' = Some (PStr t)"
    by simp
  with n have "set_device_index E c ''ccd_device_index'' CcdDeviceIndex s1
      = (Some (ValueError t), s1)"
    by (simp add: set_device_index_def dict_getitem_def dict_get_def py_int_def)
  then have "run (write_settings E c) s1 = (Some (ValueError t), s1)"
    unfolding write_settings_def by (rule run_first_raises)
  with s1(1) o have "configure_body E c att s = (Some (ValueError t), s1)"
    by (simp add: configure_body_def)
  moreover have "calls s1 = calls s"
    using fill_loop_frame [of "map fst (store s)" c s] s1(1) by simp
  ultimately show "fst (configure_body E c att s) = Some (ValueError t)"
    and "calls (snd (configure_body E c att s)) = calls s"
    by simp_all
qed

lemma sim_abc: "int_of_str sim ''abc'' = None"
  by (simp add: sim_def sim_int_of_str_def strip_def is_space_def split_sign_def digit_of_def
      digit_table_def)

theorem conversion_failure_is_a_ValueError_witness:
  "sc_is_open sim (device (partial_request_state\<lparr>heap :=
        [example_config, [(''ccd_device_index'', PStr ''abc''), (''pre_amp_gain'', PNone)]]\<rparr>))
   \<and> int_of_str sim ''abc'' = None
   \<and> set_pre_amp_gain sim 1 (partial_request_state\<lparr>heap :=
        [example_config, [(''ccd_device_index'', PStr ''abc''), (''pre_amp_gain'', PNone)]]\<rparr>)
       = (None, partial_request_state\<lparr>heap :=
        [example_config, [(''ccd_device_index'', PStr ''abc''), (''pre_amp_gain'', PNone)]]\<rparr>)
   \<and> fst (configure_body sim 1 False (partial_request_state\<lparr>heap :=
        [example_config, [(''ccd_device_index'', PStr ''abc''), (''pre_amp_gain'', PNone)]]\<rparr>))
       = Some (ValueError ''abc'')"
proof -
  let ?s = "partial_request_state\<lparr>heap :=
        [example_config, [(''ccd_device_index'', PStr ''abc''), (''pre_amp_gain'', PNone)]]\<rparr>"
  have o: "sc_is_open sim (device ?s)"
    by (simp add: partial_request_state_def sim_def sim_device_def)
  have h: "1 < length (heap ?s)" "1 \<noteq> last_config_dict ?s"
    by (simp_all add: partial_request_state_def)
  have v: "dict_get (deref (heap ?s) 1) ''ccd_device_index'' = Some (PStr ''abc'')"
    "dict_get (deref (heap ?s) 1) ''pre_amp_gain'' = Some PNone"
    by (simp_all add: dict_get_def deref_def)
  from conversion_failure_is_a_ValueError [of ?s 1 sim "''ccd_device_index''" "''abc''" CcdDeviceIndex False]
    o h v sim_abc
  show ?thesis by blast
qed

text \<open>
  Claim C9 as it is written says that the failure names the field, and that an empty
  compound field is not parsed. The same exception, with the text \<^verbatim>\<open>abc\<close> only, leaves
  \<^verbatim>\<open>configure\<close> whether the camera index or the spectrograph index is the text that
  does not convert; and an empty horizontal shift speed is split into one empty piece,
  whose conversion fails.
\<close>

theorem conversion_failure_counterexample:
  "fst (configure sim 1 False bad_ccd_state) = Some (ValueError ''abc'')
   \<and> fst (configure sim 1 False bad_spg_state) = Some (ValueError ''abc'')
   \<and> fst (set_horizontal_shift_speed sim 0
        (controller_with (sim_device True True True) [(''horizontal_shift_speed'', PStr '''')]))
       = Some (ValueError '''')"
proof (intro conjI)
  show "fst (configure sim 1 False bad_ccd_state) = Some (ValueError ''abc'')"
    by (simp add: configure.simps open_conn.simps configure_body_def bad_ccd_state_def
        store_def deref_def log_msg_def invoke_def sim_def sim_device_def write_settings_def
        set_device_index_def dict_getitem_def py_int_def sim_int_of_str_def strip_def
        is_space_def split_sign_def digit_of_def digit_table_def)
  show "fst (configure sim 1 False bad_spg_state) = Some (ValueError ''abc'')"
    by (simp add: configure.simps open_conn.simps configure_body_def bad_spg_state_def
        store_def deref_def log_msg_def invoke_def sim_def sim_device_def write_settings_def
        set_device_index_def dict_getitem_def py_int_def sim_int_of_str_def strip_def
        is_space_def split_sign_def digit_of_def digit_table_def
        assign_def)
  show "fst (set_horizontal_shift_speed sim 0
        (controller_with (sim_device True True True) [(''horizontal_shift_speed'', PStr '''')]))
       = Some (ValueError '''')"
    by (simp add: set_horizontal_shift_speed_def controller_with_def deref_def dict_getitem_def
        hss_pieces_def list_getitem_def py_int_def sim_def sim_int_of_str_def strip_def
        split_sign_def)
qed


section \<open>The statements of \<^verbatim>\<open>configure\<close> make the planned assignments\<close>

lemma replay_Nil [simp]: "replay E [] d = d"
  by (simp add: replay_def)



lemma perform_Nil [simp]: "perform E [] s = s"
  by (simp add: perform_def)


lemma perform_frame [simp]:
  "heap (perform E cs s) = heap s" "last_config_dict (perform E cs s) = last_config_dict s"
  "logger (perform E cs s) = logger s" "calls (perform E cs s) = calls s @ cs"
  "device (perform E cs s) = replay E cs (device s)"
  by (simp_all add: perform_def)











section \<open>The read-back pass stores the view of the device\<close>

lemma dict_update_Nil [simp]: "dict_update d [] = d"
  by (simp add: dict_update_def)













section \<open>The body of \<^verbatim>\<open>configure\<close> on an open device\<close>

lemma store_perform [simp]: "store (perform E cs s) = store s"
  by (simp add: store_def)

lemma replay_read_calls [simp]: "replay E read_calls d = d"
  by (simp add: replay_def read_calls_def)

lemma replay_reads [simp]: "replay E (ws @ read_calls) d = replay E ws d"
  by (simp add: replay_def read_calls_def)









section \<open>The simulated device on the examples\<close>

lemma sim_fields [simp]:
  "int_of_str sim = sim_int_of_str" "float_of_str sim = sim_float_of_str"
  "str_of_int sim = sim_str_of_int" "str_of_float sim = sim_str_of_float"
  "repr_of_str sim = (\<lambda>t. [CHR 0x27] @ t @ [CHR 0x27])"
  "float_of_int sim = sim_float_of_int"
  "get_attr sim = (\<lambda>a d. sim_attrs d a)"
  "set_attr sim = (\<lambda>a v d. d\<lparr>sim_attrs := (sim_attrs d)(a := v)\<rparr>)"
  "get_track sim = sim_track"
  "set_track sim = (\<lambda>c h d. d\<lparr>sim_track := (c, h)\<rparr>)"
  "sc_is_open sim = sim_open"
  "sc_open sim = (\<lambda>d. if sim_connects d then d\<lparr>sim_open := True\<rparr> else d)"
  "sc_close sim = (\<lambda>d. if sim_disconnects d then d\<lparr>sim_open := False\<rparr> else d)"
  "daq_close sim = (\<lambda>d. d)"
  "stop_waiting_to_reach_temperature sim = (\<lambda>d. d)"
  "float_mul sim = (\<lambda>x y. Fl (x * y))"
  "float_recip sim = (\<lambda>x. Fl (1 / x))"
  "int_recip sim = (\<lambda>i. Fl (1 / of_int i))"
  by (simp_all add: sim_def)









lemma read_calls_flags:
  "list_all (\<lambda>c. c \<noteq> Open \<and> c \<noteq> Close) read_calls"
  by (simp add: read_calls_def)












section \<open>The order of writes and reads in one call of \<^verbatim>\<open>configure\<close>\<close>




section \<open>Omitted fields are filled from the store\<close>






section \<open>Opening re-applies the stored configuration\<close>




section \<open>Closing twice\<close>

text \<open>
  Claim C6: on an adapter whose disconnect takes effect, \<^verbatim>\<open>close()\<close> returns true and
  leaves the device closed; a second \<^verbatim>\<open>close()\<close> in a row returns true again, makes no
  call and leaves the device as it is. On a device that is already closed the first call
  makes no call either; on an open one it closes the acquisition object and disconnects.
\<close>

theorem close_idempotent:
  assumes "sc_is_open E (device s) \<Longrightarrow> \<not> sc_is_open E (sc_close E (daq_close E (device s)))"
  shows "fst (close E s) \<and> \<not> sc_is_open E (device (snd (close E s)))
     \<and> fst (close E (snd (close E s)))
     \<and> \<not> sc_is_open E (device (snd (close E (snd (close E s)))))
     \<and> device (snd (close E (snd (close E s)))) = device (snd (close E s))
     \<and> calls (snd (close E (snd (close E s)))) = calls (snd (close E s))
     \<and> calls (snd (close E s)) =
         calls s @ (if sc_is_open E (device s) then [DaqClose, Close] else [])
     \<and> device (snd (close E s)) =
         (if sc_is_open E (device s) then sc_close E (daq_close E (device s)) else device s)"
proof (cases "sc_is_open E (device s)")
  case True
  with assms have "\<not> sc_is_open E (sc_close E (daq_close E (device s)))" by simp
  with True show ?thesis
    by (simp add: close_def invoke_def log_msg_def Let_def)
next
  case False
  then show ?thesis
    by (simp add: close_def invoke_def log_msg_def Let_def)
qed

theorem close_idempotent_witness:
  "sc_is_open sim (device (controller_with (sim_device True True True) []))
   \<and> \<not> sc_is_open sim (sc_close sim (daq_close sim
         (device (controller_with (sim_device True True True) []))))
   \<and> fst (close sim (controller_with (sim_device True True True) []))
   \<and> fst (close sim (snd (close sim (controller_with (sim_device True True True) []))))
   \<and> \<not> sim_open (device (snd (close sim (snd (close sim
         (controller_with (sim_device True True True) []))))))
   \<and> calls (snd (close sim (snd (close sim (controller_with (sim_device True True True) [])))))
       = [DaqClose, Close]
   \<and> \<not> sc_is_open sim (device (controller_with (sim_device False True True) []))
   \<and> fst (close sim (controller_with (sim_device False True True) []))
   \<and> fst (close sim (snd (close sim (controller_with (sim_device False True True) []))))
   \<and> calls (snd (close sim (snd (close sim (controller_with (sim_device False True True) [])))))
       = []"
proof -
  have a: "sc_is_open sim (device (controller_with (sim_device True True True) []))"
    "\<not> sc_is_open sim (sc_close sim (daq_close sim
         (device (controller_with (sim_device True True True) []))))"
    "\<not> sc_is_open sim (device (controller_with (sim_device False True True) []))"
    "calls (controller_with (sim_device True True True) []) = []"
    "calls (controller_with (sim_device False True True) []) = []"
    by (simp_all add: sim_device_def controller_with_def)
  from close_idempotent [of sim "controller_with (sim_device True True True) []"]
    close_idempotent [of sim "controller_with (sim_device False True True) []"] a
  show ?thesis by simp
qed


section \<open>The clock rate, mode by mode\<close>




end
